theory Spec2Isabelle
  imports Complex_Main "HOL-Library.Char_ord" "HOL-Library.List_Lexorder"
begin

section \<open>FraudGuard AI: the hybrid scoring engine (fraud\_model.py, api\_server.py)\<close>

text \<open>
  The embedding follows \<^verbatim>\<open>src/fraud_model.py\<close> (class \<^verbatim>\<open>FraudDetector\<close>),
  \<^verbatim>\<open>src/config.py\<close> (thresholds, \<^verbatim>\<open>CATEGORICAL_FEATURES\<close>) and the batch
  endpoint of \<^verbatim>\<open>src/api_server.py\<close>.

  Conventions.
  \<^item> Python floats and ints are \<^typ>\<open>real\<close>; rounding is not modelled. Where numpy yields
    nan or an infinity instead of raising (\<^verbatim>\<open>log1p\<close> at or below \<open>-1\<close>, a zero divisor)
    the cell is \<open>NonFinite\<close>, which stands for all three without telling them apart; an
    operation on a \<open>NonFinite\<close> operand stays \<open>NonFinite\<close>.
  \<^item> A pandas DataFrame is its row count and a map from column name to column; a record
    (a Python dict) is a map from key to value. A datetime is held as its text.
  \<^item> An exception is a value of type \<open>error\<close>; a method of the detector returns the
    detector as the call leaves it together with \<open>Inl\<close> the exception or \<open>Inr\<close> the
    value, so what a call has assigned to \<^verbatim>\<open>self\<close> before raising is kept.
  \<^item> scikit-learn, XGBoost, imbalanced-learn, joblib and pandas' date parser are not part of
    the repository. Fitted objects are the functions they compute on one row (both learners
    and the scaler work row by row; the scaler is handed a frame and sees the column names
    too); the fitting procedures and the parser are parameters,
    collected in the record \<open>pylib\<close>. \<^verbatim>\<open>print\<close> is not modelled.
\<close>

subsection \<open>Values, errors, frames\<close>

datatype val = Num real | Str string | NonFinite

datatype error =
    KeyError string
  | TypeError
  | UnseenLabels "string list"
  | NotFittedError
  | IndexError
  | ZeroDivisionError
  | ValueError
  | OSError string
  | LibraryError string

text \<open>
  The exceptions by their Python names. \<open>UnseenLabels\<close> is the
  \<^verbatim>\<open>ValueError: y contains previously unseen labels\<close> of sklearn's LabelEncoder, with
  the labels; \<open>LibraryError\<close> is for whatever else a library call raises.
\<close>

type_synonym pyrecord = "string \<rightharpoonup> val"

text \<open>A frame: the number of rows and the columns, each holding one cell per row.\<close>

record dataframe =
  nrows :: nat
  cols :: "string \<rightharpoonup> val list"

text \<open>\<^verbatim>\<open>pd.DataFrame([transaction_data])\<close>: one row, one column per key.\<close>

definition DataFrame_of_dict :: "pyrecord \<Rightarrow> dataframe" where
  "DataFrame_of_dict r = \<lparr>nrows = 1, cols = (\<lambda>k. map_option (\<lambda>v. [v]) (r k))\<rparr>"

text \<open>\<^verbatim>\<open>data[k]\<close> raises KeyError on a missing column; \<^verbatim>\<open>data[k] = c\<close> adds or replaces.\<close>

definition getcol :: "dataframe \<Rightarrow> string \<Rightarrow> error + val list" where
  "getcol data k = (case cols data k of None \<Rightarrow> Inl (KeyError k) | Some c \<Rightarrow> Inr c)"

definition setcol :: "dataframe \<Rightarrow> string \<Rightarrow> val list \<Rightarrow> dataframe" where
  "setcol data k c = data\<lparr>cols := (cols data)(k \<mapsto> c)\<rparr>"

text \<open>Running a fallible function over a column: the first exception wins.\<close>

fun sequence :: "(error + 'a) list \<Rightarrow> error + 'a list" where
  "sequence [] = Inr []"
| "sequence (x # xs) =
     (case x of Inl e \<Rightarrow> Inl e
      | Inr v \<Rightarrow> (case sequence xs of Inl e \<Rightarrow> Inl e | Inr vs \<Rightarrow> Inr (v # vs)))"

definition mapE :: "('a \<Rightarrow> error + 'b) \<Rightarrow> 'a list \<Rightarrow> error + 'b list" where
  "mapE f xs = sequence (map f xs)"

definition map2E :: "('a \<Rightarrow> 'b \<Rightarrow> error + 'c) \<Rightarrow> 'a list \<Rightarrow> 'b list \<Rightarrow> error + 'c list" where
  "map2E f xs ys = sequence (map2 f xs ys)"

subsection \<open>Cell arithmetic as pandas and numpy do it\<close>

text \<open>\<^verbatim>\<open>series.isin(vs).astype(int)\<close> on one cell.\<close>

definition isin :: "real list \<Rightarrow> val \<Rightarrow> val" where
  "isin vs v = (case v of Num x \<Rightarrow> Num (if x \<in> set vs then 1 else 0) | _ \<Rightarrow> Num 0)"

text \<open>\<^verbatim>\<open>np.log1p\<close>: a string raises; at or below \<open>-1\<close> the result is not finite.\<close>

definition log1p :: "val \<Rightarrow> error + val" where
  "log1p v = (case v of
      Num x \<Rightarrow> Inr (if -1 < x then Num (ln (1 + x)) else NonFinite)
    | NonFinite \<Rightarrow> Inr NonFinite
    | Str s \<Rightarrow> Inl TypeError)"

text \<open>\<^verbatim>\<open>a + b\<close>: two strings are concatenated, a string and a number raise.\<close>

definition py_add :: "val \<Rightarrow> val \<Rightarrow> error + val" where
  "py_add a b = (case (a, b) of
      (Num x, Num y) \<Rightarrow> Inr (Num (x + y))
    | (Str s, Str t) \<Rightarrow> Inr (Str (s @ t))
    | (Str s, _) \<Rightarrow> Inl TypeError
    | (_, Str t) \<Rightarrow> Inl TypeError
    | _ \<Rightarrow> Inr NonFinite)"

definition py_sub :: "val \<Rightarrow> val \<Rightarrow> error + val" where
  "py_sub a b = (case (a, b) of
      (Num x, Num y) \<Rightarrow> Inr (Num (x - y))
    | (Str s, _) \<Rightarrow> Inl TypeError
    | (_, Str t) \<Rightarrow> Inl TypeError
    | _ \<Rightarrow> Inr NonFinite)"

definition py_abs :: "val \<Rightarrow> error + val" where
  "py_abs a = (case a of
      Num x \<Rightarrow> Inr (Num \<bar>x\<bar>)
    | NonFinite \<Rightarrow> Inr NonFinite
    | Str s \<Rightarrow> Inl TypeError)"

text \<open>\<^verbatim>\<open>a / b\<close> on numpy floats: a zero divisor gives nan or an infinity, no exception.\<close>

definition py_div :: "val \<Rightarrow> val \<Rightarrow> error + val" where
  "py_div a b = (case (a, b) of
      (Num x, Num y) \<Rightarrow> Inr (if y = 0 then NonFinite else Num (x / y))
    | (Str s, _) \<Rightarrow> Inl TypeError
    | (_, Str t) \<Rightarrow> Inl TypeError
    | _ \<Rightarrow> Inr NonFinite)"

subsection \<open>The libraries the detector calls\<close>

text \<open>
  A fitted XGBoost classifier: the probability of class 1 for a row
  (\<^verbatim>\<open>predict_proba(X)[:, 1]\<close>), the predicted class (\<^verbatim>\<open>predict\<close>) and
  \<^verbatim>\<open>feature_importances_\<close>.
\<close>

record xgb_fitted =
  predict_proba1 :: "real list \<Rightarrow> error + real"
  predict_class :: "real list \<Rightarrow> error + nat"
  feature_importances :: "real list"

type_synonym iforest_fitted = "real list \<Rightarrow> error + real"
type_synonym scaler_fitted = "string list \<Rightarrow> val list \<Rightarrow> error + real list"
type_synonym matrix = "real list list"

text \<open>
  The library calls of the repository, as parameters:
  \<^verbatim>\<open>pd.to_datetime\<close> on a column; the text \<^verbatim>\<open>astype(str)\<close> gives a number;
  \<^verbatim>\<open>train_test_split(X, y, test_size=0.2, random_state=42, stratify=y)\<close>, giving
  \<open>(X_train, X_test, y_train, y_test)\<close>; \<^verbatim>\<open>StandardScaler.fit\<close>;
  \<^verbatim>\<open>IsolationForest.fit\<close>; \<^verbatim>\<open>SMOTE(random_state=42).fit_resample\<close>;
  \<^verbatim>\<open>XGBClassifier.fit(X, y, eval_set=[(X_test, y_test)])\<close>;
  \<^verbatim>\<open>roc_auc_score(y_true, proba)\<close>; \<^verbatim>\<open>confusion_matrix(y_true, pred).ravel()\<close>;
  and whether \<^verbatim>\<open>joblib.dump\<close> can write to a path.
\<close>

record pylib =
  to_datetime :: "val list \<Rightarrow> error + val list"
  str_of_num :: "real \<Rightarrow> string"
  train_test_split ::
    "val list list \<Rightarrow> val list
       \<Rightarrow> error + (val list list \<times> val list list \<times> val list \<times> val list)"
  scaler_fit :: "string list \<Rightarrow> val list list \<Rightarrow> error + scaler_fitted"
  iforest_fit :: "matrix \<Rightarrow> error + iforest_fitted"
  smote_fit_resample :: "matrix \<Rightarrow> val list \<Rightarrow> error + (matrix \<times> val list)"
  xgb_fit :: "matrix \<Rightarrow> val list \<Rightarrow> matrix \<times> val list \<Rightarrow> error + xgb_fitted"
  roc_auc_score :: "val list \<Rightarrow> val list \<Rightarrow> error + real"
  confusion_matrix_ravel :: "val list \<Rightarrow> nat list \<Rightarrow> error + nat list"
  writable :: "string \<Rightarrow> bool"

text \<open>\<^verbatim>\<open>series.astype(str)\<close> on one cell.\<close>

definition astype_str :: "pylib \<Rightarrow> val \<Rightarrow> string" where
  "astype_str lib v = (case v of Str s \<Rightarrow> s | Num x \<Rightarrow> str_of_num lib x | NonFinite \<Rightarrow> ''nan'')"

text \<open>
  sklearn's LabelEncoder: \<^verbatim>\<open>classes_\<close> is the sorted list of the distinct labels seen by
  \<^verbatim>\<open>fit\<close>; \<^verbatim>\<open>transform\<close> gives each label its position there and raises
  \<^verbatim>\<open>ValueError: y contains previously unseen labels\<close> when a label is not in it.
\<close>

type_synonym label_encoder = "string list"

definition le_fit :: "string list \<Rightarrow> label_encoder" where
  "le_fit ys = sort (remdups ys)"

fun index_of :: "'a list \<Rightarrow> 'a \<Rightarrow> nat" where
  "index_of [] y = 0"
| "index_of (x # xs) y = (if x = y then 0 else Suc (index_of xs y))"

definition le_transform :: "label_encoder \<Rightarrow> string list \<Rightarrow> error + val list" where
  "le_transform classes ys =
     (let unseen = remdups (filter (\<lambda>y. y \<notin> set classes) ys)
      in if unseen \<noteq> [] then Inl (UnseenLabels unseen)
         else Inr (map (\<lambda>y. Num (real (index_of classes y))) ys))"

subsection \<open>config.py\<close>

definition FRAUD_THRESHOLD_HIGH :: real where "FRAUD_THRESHOLD_HIGH = 0.8"
definition FRAUD_THRESHOLD_MEDIUM :: real where "FRAUD_THRESHOLD_MEDIUM = 0.5"
definition FRAUD_THRESHOLD_LOW :: real where "FRAUD_THRESHOLD_LOW = 0.2"

definition CATEGORICAL_FEATURES :: "string list" where
  "CATEGORICAL_FEATURES = [''merchant_category'', ''device_type'', ''payment_method'']"

subsection \<open>FraudDetector\<close>

record metrics =
  auc :: real
  precision :: real
  recall :: real
  f1 :: real
  specificity :: real
  false_positive_rate :: val
  confusion_matrix :: "(string \<times> nat) list"

text \<open>
  The fields of \<^verbatim>\<open>self\<close>. A learner or scaler that has not been fitted is \<open>None\<close>;
  a dict is a map, \<^verbatim>\<open>feature_importance\<close> keeps the order \<^verbatim>\<open>zip\<close> gave it.
\<close>

record detector =
  xgb_model :: "xgb_fitted option"
  isolation_forest :: "iforest_fitted option"
  scaler :: "scaler_fitted option"
  label_encoders :: "string \<rightharpoonup> label_encoder"
  performance_metrics :: "string \<rightharpoonup> metrics"
  feature_importance :: "(string \<times> real) list"

text \<open>\<^verbatim>\<open>FraudDetector.__init__\<close>\<close>

definition init :: detector where
  "init = \<lparr>xgb_model = None, isolation_forest = None, scaler = None,
           label_encoders = Map.empty, performance_metrics = Map.empty,
           feature_importance = []\<rparr>"

text \<open>
  Lines 57 to 63 of \<^verbatim>\<open>preprocess_data\<close>: for each categorical feature that is a column,
  fit a new encoder on this very frame when the detector has none for it, else use the one
  it has. The encoders are threaded through the loop because the loop assigns to
  \<^verbatim>\<open>self.label_encoders\<close>.
\<close>

fun encode_features ::
  "pylib \<Rightarrow> string list \<Rightarrow> (string \<rightharpoonup> label_encoder) \<Rightarrow> dataframe
     \<Rightarrow> (string \<rightharpoonup> label_encoder) \<times> (error + dataframe)" where
  "encode_features lib [] encs data = (encs, Inr data)"
| "encode_features lib (feature # rest) encs data =
     (case cols data feature of
        None \<Rightarrow> encode_features lib rest encs data
      | Some c \<Rightarrow>
          (case encs feature of
             None \<Rightarrow>
               (let classes = le_fit (map (astype_str lib) c);
                    encs' = encs(feature \<mapsto> classes)
                in case le_transform classes (map (astype_str lib) c) of
                     Inl e \<Rightarrow> (encs', Inl e)
                   | Inr codes \<Rightarrow>
                       encode_features lib rest encs' (setcol data (feature @ ''_encoded'') codes))
           | Some classes \<Rightarrow>
               (case le_transform classes (map (astype_str lib) c) of
                  Inl e \<Rightarrow> (encs, Inl e)
                | Inr codes \<Rightarrow>
                    encode_features lib rest encs (setcol data (feature @ ''_encoded'') codes))))"

text \<open>
  Lines 46 to 54 of \<^verbatim>\<open>preprocess_data\<close>: the derived columns, one definition per
  statement, in the order of the source; inside one statement the operands are read left
  to right. \<open>bindE\<close> passes a value on and stops at the first exception.
\<close>

definition bindE :: "error + 'a \<Rightarrow> ('a \<Rightarrow> error + 'b) \<Rightarrow> error + 'b" where
  "bindE m f = (case m of Inl e \<Rightarrow> Inl e | Inr v \<Rightarrow> f v)"

definition add_timestamp :: "pylib \<Rightarrow> dataframe \<Rightarrow> error + dataframe" where
  "add_timestamp lib data =
     bindE (getcol data ''timestamp'') (\<lambda>ts.
     bindE (to_datetime lib ts) (\<lambda>ts'.
     Inr (setcol data ''timestamp'' ts')))"

definition add_is_weekend :: "dataframe \<Rightarrow> error + dataframe" where
  "add_is_weekend data =
     bindE (getcol data ''day_of_week'') (\<lambda>dow.
     Inr (setcol data ''is_weekend'' (map (isin [5, 6]) dow)))"

definition add_is_night :: "dataframe \<Rightarrow> error + dataframe" where
  "add_is_night data =
     bindE (getcol data ''hour'') (\<lambda>hour.
     Inr (setcol data ''is_night'' (map (isin [0, 1, 2, 3, 4, 5]) hour)))"

definition add_amount_log :: "dataframe \<Rightarrow> error + dataframe" where
  "add_amount_log data =
     bindE (getcol data ''amount'') (\<lambda>amount.
     bindE (mapE log1p amount) (\<lambda>amount_log.
     Inr (setcol data ''amount_log'' amount_log)))"

definition add_velocity_risk :: "dataframe \<Rightarrow> error + dataframe" where
  "add_velocity_risk data =
     bindE (getcol data ''velocity_1h'') (\<lambda>velocity.
     bindE (getcol data ''avg_amount_30d'') (\<lambda>avg.
     bindE (mapE (\<lambda>a. py_add a (Num 1)) avg) (\<lambda>avg1.
     bindE (map2E py_div velocity avg1) (\<lambda>velocity_risk.
     Inr (setcol data ''velocity_risk'' velocity_risk)))))"

definition add_amount_deviation :: "dataframe \<Rightarrow> error + dataframe" where
  "add_amount_deviation data =
     bindE (getcol data ''amount'') (\<lambda>amount.
     bindE (getcol data ''avg_amount_30d'') (\<lambda>avg.
     bindE (map2E py_sub amount avg) (\<lambda>diff.
     bindE (mapE py_abs diff) (\<lambda>adiff.
     bindE (getcol data ''std_amount_30d'') (\<lambda>std.
     bindE (mapE (\<lambda>a. py_add a (Num 1)) std) (\<lambda>std1.
     bindE (map2E py_div adiff std1) (\<lambda>amount_deviation.
     Inr (setcol data ''amount_deviation'' amount_deviation))))))))"

definition add_total_risk_score :: "dataframe \<Rightarrow> error + dataframe" where
  "add_total_risk_score data =
     bindE (getcol data ''geographic_risk'') (\<lambda>geo.
     bindE (getcol data ''device_risk'') (\<lambda>dev.
     bindE (map2E py_add geo dev) (\<lambda>total.
     Inr (setcol data ''total_risk_score'' total))))"

definition derive_columns :: "pylib \<Rightarrow> dataframe \<Rightarrow> error + dataframe" where
  "derive_columns lib df =
     bindE (add_timestamp lib df) (\<lambda>data.
     bindE (add_is_weekend data) (\<lambda>data.
     bindE (add_is_night data) (\<lambda>data.
     bindE (add_amount_log data) (\<lambda>data.
     bindE (add_velocity_risk data) (\<lambda>data.
     bindE (add_amount_deviation data) (\<lambda>data.
     add_total_risk_score data))))))"

text \<open>
  Lines 66 to 84: the final feature list, the encoded columns appended, restricted to the
  columns that exist. \<open>X\<close> is the list of the selected columns with their names, in order.
\<close>

definition feature_columns :: "string list" where
  "feature_columns =
     [''amount'', ''amount_log'', ''hour'', ''day_of_week'', ''month'',
      ''user_age'', ''account_age_days'', ''transaction_count_day'',
      ''amount_last_hour'', ''amount_last_day'', ''velocity_1h'',
      ''avg_amount_30d'', ''std_amount_30d'', ''geographic_risk'',
      ''device_risk'', ''time_since_last_transaction'',
      ''is_weekend'', ''is_night'', ''velocity_risk'',
      ''amount_deviation'', ''total_risk_score'']"

definition select_features :: "dataframe \<Rightarrow> (string \<times> val list) list" where
  "select_features data =
     (let feature_columns' = feature_columns @
            filter (\<lambda>encoded_col. cols data encoded_col \<noteq> None)
                   (map (\<lambda>feature. feature @ ''_encoded'') CATEGORICAL_FEATURES);
          available_features = filter (\<lambda>col. cols data col \<noteq> None) feature_columns'
      in concat (map (\<lambda>col. case cols data col of None \<Rightarrow> [] | Some c \<Rightarrow> [(col, c)])
                     available_features))"

text \<open>\<^verbatim>\<open>preprocess_data\<close>: returns the detector too, since the encoder loop may assign to it.\<close>

definition preprocess_data ::
  "pylib \<Rightarrow> detector \<Rightarrow> dataframe
     \<Rightarrow> detector \<times> (error + ((string \<times> val list) list \<times> dataframe))" where
  "preprocess_data lib self df =
     (case derive_columns lib df of
        Inl e \<Rightarrow> (self, Inl e)
      | Inr data \<Rightarrow>
          (case encode_features lib CATEGORICAL_FEATURES (label_encoders self) data of
             (encs, Inl e) \<Rightarrow> (self\<lparr>label_encoders := encs\<rparr>, Inl e)
           | (encs, Inr data') \<Rightarrow>
               (self\<lparr>label_encoders := encs\<rparr>, Inr (select_features data', data'))))"

text \<open>The rows of \<open>X\<close>: row \<open>i\<close> takes cell \<open>i\<close> of every selected column.\<close>

definition rows_of :: "nat \<Rightarrow> (string \<times> val list) list \<Rightarrow> val list list" where
  "rows_of n X = map (\<lambda>i. map (\<lambda>(name, c). c ! i) X) [0..<n]"

text \<open>A method of an estimator that was never fitted raises NotFittedError.\<close>

definition scaler_transform :: "detector \<Rightarrow> string list \<Rightarrow> val list list \<Rightarrow> error + matrix" where
  "scaler_transform self columns rows =
     (case scaler self of None \<Rightarrow> Inl NotFittedError | Some f \<Rightarrow> mapE (f columns) rows)"

definition xgb_predict_proba :: "detector \<Rightarrow> matrix \<Rightarrow> error + real list" where
  "xgb_predict_proba self X =
     (case xgb_model self of None \<Rightarrow> Inl NotFittedError | Some m \<Rightarrow> mapE (predict_proba1 m) X)"

definition decision_function :: "detector \<Rightarrow> matrix \<Rightarrow> error + real list" where
  "decision_function self X =
     (case isolation_forest self of None \<Rightarrow> Inl NotFittedError | Some f \<Rightarrow> mapE f X)"

record prediction =
  fraud_score :: real
  xgb_score :: real
  isolation_score :: real
  risk_level :: string
  action :: string
  is_fraud_predicted :: bool

text \<open>Lines 240 to 244 of \<^verbatim>\<open>predict\<close>.\<close>

definition sigmoid :: "real \<Rightarrow> real" where
  "sigmoid s = 1 / (1 + exp (- s))"

definition fuse :: "real \<Rightarrow> real \<Rightarrow> real" where
  "fuse xgb_proba isolation_proba = (xgb_proba + isolation_proba) / 2"

text \<open>Lines 246 to 267 of \<^verbatim>\<open>predict\<close>: the threshold chain and the returned dict.\<close>

definition classify :: "real \<Rightarrow> string \<times> string" where
  "classify score =
     (if score \<ge> FRAUD_THRESHOLD_HIGH then (''HIGH'', ''BLOCK'')
      else if score \<ge> FRAUD_THRESHOLD_MEDIUM then (''MEDIUM'', ''ALERT'')
      else if score \<ge> FRAUD_THRESHOLD_LOW then (''LOW'', ''MONITOR'')
      else (''MINIMAL'', ''APPROVE''))"

definition make_result :: "real \<Rightarrow> real \<Rightarrow> real \<Rightarrow> prediction" where
  "make_result fraud_score0 xgb_proba0 isolation_proba0 =
     \<lparr>fraud_score = fraud_score0, xgb_score = xgb_proba0,
      isolation_score = isolation_proba0,
      risk_level = fst (classify fraud_score0), action = snd (classify fraud_score0),
      is_fraud_predicted = (fraud_score0 > 0.5)\<rparr>"

text \<open>
  \<^verbatim>\<open>predict\<close> on a DataFrame (the \<^verbatim>\<open>else\<close> branch of line 227) and on a dict. Index
  \<open>0\<close> of an empty array raises IndexError.
\<close>

definition predict_frame :: "pylib \<Rightarrow> detector \<Rightarrow> dataframe \<Rightarrow> detector \<times> (error + prediction)" where
  "predict_frame lib self df =
     (case preprocess_data lib self df of
        (self', Inl e) \<Rightarrow> (self', Inl e)
      | (self', Inr (X, _)) \<Rightarrow>
          (case scaler_transform self' (map fst X) (rows_of (nrows df) X) of
             Inl e \<Rightarrow> (self', Inl e)
           | Inr X_scaled \<Rightarrow>
          (case xgb_predict_proba self' X_scaled of
             Inl e \<Rightarrow> (self', Inl e)
           | Inr xgb_proba \<Rightarrow>
          (case decision_function self' X_scaled of
             Inl e \<Rightarrow> (self', Inl e)
           | Inr isolation_sc \<Rightarrow>
              (let isolation_proba = map sigmoid isolation_sc;
                   fraud_sc = map2 fuse xgb_proba isolation_proba
               in case (fraud_sc, xgb_proba, isolation_proba) of
                    (f0 # _, x0 # _, i0 # _) \<Rightarrow> (self', Inr (make_result f0 x0 i0))
                  | _ \<Rightarrow> (self', Inl IndexError))))))"

definition predict :: "pylib \<Rightarrow> detector \<Rightarrow> pyrecord \<Rightarrow> detector \<times> (error + prediction)" where
  "predict lib self transaction_data = predict_frame lib self (DataFrame_of_dict transaction_data)"


subsection \<open>Training and evaluation\<close>

text \<open>
  Lines 157 to 162 of \<^verbatim>\<open>_evaluate_models\<close>. \<^verbatim>\<open>min\<close> of an empty array raises; when
  all scores are equal the divisor is zero and every cell is nan.
\<close>

definition minmax_normalize :: "real list \<Rightarrow> error + val list" where
  "minmax_normalize isolation_pred =
     (if isolation_pred = [] then Inl ValueError
      else let lo = Min (set isolation_pred); hi = Max (set isolation_pred)
           in Inr (map (\<lambda>p. if hi - lo = 0 then NonFinite else Num ((p - lo) / (hi - lo)))
                       isolation_pred))"

definition one_minus :: "val \<Rightarrow> val" where
  "one_minus v = (case v of Num p \<Rightarrow> Num (1 - p) | _ \<Rightarrow> NonFinite)"

definition hybrid_cell :: "real \<Rightarrow> val \<Rightarrow> val" where
  "hybrid_cell xgb_p isolation_p =
     (case one_minus isolation_p of Num q \<Rightarrow> Num ((xgb_p + q) / 2) | _ \<Rightarrow> NonFinite)"

text \<open>
  An elementwise numpy operation on two arrays: equal lengths pair up, an array of length
  one is broadcast, any other pair of lengths raises.
\<close>

definition np_broadcast :: "('a \<Rightarrow> 'b \<Rightarrow> 'c) \<Rightarrow> 'a list \<Rightarrow> 'b list \<Rightarrow> error + 'c list" where
  "np_broadcast f xs ys =
     (if length xs = length ys then Inr (map2 f xs ys)
      else if length xs = 1 then Inr (map (f (hd xs)) ys)
      else if length ys = 1 then Inr (map (\<lambda>x. f x (hd ys)) xs)
      else Inl ValueError)"

definition hybrid_proba :: "real list \<Rightarrow> real list \<Rightarrow> error + val list" where
  "hybrid_proba xgb_proba isolation_pred =
     bindE (minmax_normalize isolation_pred) (\<lambda>isolation_proba.
     np_broadcast hybrid_cell xgb_proba isolation_proba)"

text \<open>\<^verbatim>\<open>(a > 0.5).astype(int)\<close> and \<^verbatim>\<open>(a < 0).astype(int)\<close>; a comparison with nan is false.\<close>

definition gt_half :: "val \<Rightarrow> nat" where
  "gt_half v = (case v of Num p \<Rightarrow> (if p > 0.5 then 1 else 0) | _ \<Rightarrow> 0)"

definition lt_zero :: "real \<Rightarrow> nat" where
  "lt_zero s = (if s < 0 then 1 else 0)"

text \<open>
  The body of the loop of lines 183 to 215 for one model: the metrics dict stored under
  the model's name. Unpacking \<^verbatim>\<open>tn, fp, fn, tp\<close> raises unless the matrix has four cells;
  \<^verbatim>\<open>fp/(fp+tn)\<close> is a numpy division, not finite on a zero divisor.
\<close>

definition ratio :: "nat \<Rightarrow> nat \<Rightarrow> real" where
  "ratio a b = (if b > 0 then real a / real b else 0)"

definition model_metrics :: "pylib \<Rightarrow> val list \<Rightarrow> nat list \<Rightarrow> val list \<Rightarrow> error + metrics" where
  "model_metrics lib y_test pred proba =
     bindE (roc_auc_score lib y_test proba) (\<lambda>auc_v.
     bindE (confusion_matrix_ravel lib y_test pred) (\<lambda>cm.
     case cm of
       [tn, fp, fn, tp] \<Rightarrow>
         (let precision_v = ratio tp (tp + fp);
              recall_v = ratio tp (tp + fn);
              f1_v = (if precision_v + recall_v > 0
                      then 2 * (precision_v * recall_v) / (precision_v + recall_v) else 0);
              specificity_v = ratio tn (tn + fp)
          in Inr \<lparr>auc = auc_v, precision = precision_v, recall = recall_v, f1 = f1_v,
                  specificity = specificity_v,
                  false_positive_rate =
                    (if fp + tn = 0 then NonFinite else Num (real fp / real (fp + tn))),
                  confusion_matrix = [(''tp'', tp), (''fp'', fp), (''tn'', tn), (''fn'', fn)]\<rparr>)
     | _ \<Rightarrow> Inl ValueError))"

text \<open>The loop over \<^verbatim>\<open>models_results\<close>: each model's metrics are stored as soon as computed.\<close>

fun store_metrics ::
  "pylib \<Rightarrow> val list \<Rightarrow> (string \<times> nat list \<times> val list) list \<Rightarrow> detector
     \<Rightarrow> detector \<times> (error + unit)" where
  "store_metrics lib y_test [] self = (self, Inr ())"
| "store_metrics lib y_test ((model_name, pred, proba) # rest) self =
     (case model_metrics lib y_test pred proba of
        Inl e \<Rightarrow> (self, Inl e)
      | Inr m \<Rightarrow>
          store_metrics lib y_test rest
            (self\<lparr>performance_metrics := (performance_metrics self)(model_name \<mapsto> m)\<rparr>))"

text \<open>\<^verbatim>\<open>_evaluate_models\<close>\<close>

definition evaluate_models ::
  "pylib \<Rightarrow> detector \<Rightarrow> matrix \<Rightarrow> val list \<Rightarrow> real list \<Rightarrow> detector \<times> (error + unit)" where
  "evaluate_models lib self X_test y_test isolation_pred =
     (case
        bindE (xgb_predict_proba self X_test) (\<lambda>xgb_proba.
        bindE (case xgb_model self of None \<Rightarrow> Inl NotFittedError
               | Some m \<Rightarrow> mapE (predict_class m) X_test) (\<lambda>xgb_pred.
        bindE (minmax_normalize isolation_pred) (\<lambda>isolation_proba.
        bindE (hybrid_proba xgb_proba isolation_pred) (\<lambda>hybrid.
        Inr [(''XGBoost'', xgb_pred, map Num xgb_proba),
             (''Isolation Forest'', map lt_zero isolation_pred, map one_minus isolation_proba),
             (''Hybrid Model'', map gt_half hybrid, hybrid)]))))
      of Inl e \<Rightarrow> (self, Inl e)
       | Inr models_results \<Rightarrow> store_metrics lib y_test models_results self)"

text \<open>
  \<^verbatim>\<open>train\<close>, in two parts: \<open>fit_learners\<close> is the body from line 104 on (scaling, the
  isolation forest, SMOTE, XGBoost, the importances, the evaluation) and \<open>train\<close> itself
  is lines 96 to 102 followed by it. Each \<^verbatim>\<open>fit\<close> assigns to the detector when it
  succeeds; the values are named after the source's variables; the first exception ends
  the call.
\<close>

definition fit_learners ::
  "pylib \<Rightarrow> detector \<Rightarrow> string list \<Rightarrow> val list list \<Rightarrow> val list list \<Rightarrow> val list \<Rightarrow> val list
     \<Rightarrow> detector \<times> (error + (string \<rightharpoonup> metrics))" where
  "fit_learners lib self columns X_train X_test y_train y_test =
     (case scaler_fit lib columns X_train of Inl e \<Rightarrow> (self, Inl e) | Inr sc \<Rightarrow>
      let self = self\<lparr>scaler := Some sc\<rparr> in
      case mapE (sc columns) X_train of Inl e \<Rightarrow> (self, Inl e) | Inr X_train_scaled \<Rightarrow>
      case mapE (sc columns) X_test of Inl e \<Rightarrow> (self, Inl e) | Inr X_test_scaled \<Rightarrow>
      case iforest_fit lib X_train_scaled of Inl e \<Rightarrow> (self, Inl e) | Inr forest \<Rightarrow>
      let self = self\<lparr>isolation_forest := Some forest\<rparr> in
      case mapE forest X_train_scaled of Inl e \<Rightarrow> (self, Inl e) | Inr isolation_train_pred \<Rightarrow>
      case mapE forest X_test_scaled of Inl e \<Rightarrow> (self, Inl e) | Inr isolation_test_pred \<Rightarrow>
      case smote_fit_resample lib X_train_scaled y_train of Inl e \<Rightarrow> (self, Inl e)
      | Inr (X_train_balanced, y_train_balanced) \<Rightarrow>
      case xgb_fit lib X_train_balanced y_train_balanced (X_test_scaled, y_test) of
        Inl e \<Rightarrow> (self, Inl e) | Inr m \<Rightarrow>
      let self = self\<lparr>xgb_model := Some m\<rparr>;
          self = self\<lparr>feature_importance := zip columns (feature_importances m)\<rparr>
      in case evaluate_models lib self X_test_scaled y_test isolation_test_pred of
           (self, Inl e) \<Rightarrow> (self, Inl e)
         | (self, Inr u) \<Rightarrow> (self, Inr (performance_metrics self)))"

definition train ::
  "pylib \<Rightarrow> detector \<Rightarrow> dataframe \<Rightarrow> detector \<times> (error + (string \<rightharpoonup> metrics))" where
  "train lib self df =
     (case preprocess_data lib self df of
        (self, Inl e) \<Rightarrow> (self, Inl e)
      | (self, Inr (X, processed_data)) \<Rightarrow>
          (case getcol df ''is_fraud'' of
             Inl e \<Rightarrow> (self, Inl e)
           | Inr y \<Rightarrow>
               (case train_test_split lib (rows_of (nrows df) X) y of
                  Inl e \<Rightarrow> (self, Inl e)
                | Inr (X_train, X_test, y_train, y_test) \<Rightarrow>
                    fit_learners lib self (map fst X) X_train X_test y_train y_test)))"

subsection \<open>Persistence\<close>

text \<open>
  A pickled object is one of the six kinds \<^verbatim>\<open>save_model\<close> puts into \<^verbatim>\<open>model_data\<close>; a
  file holds a dict of such objects and a file system is a map from paths to files.
  joblib is taken to restore what it wrote. \<^verbatim>\<open>load_model\<close> catches every exception
  (no file at the path, a missing key) and returns \<open>False\<close>, keeping the fields assigned
  before it. An entry of another kind than the field it goes to has no place in the typed
  detector; the load counts as failed there.
\<close>

datatype pyobj =
    XgbObj "xgb_fitted option"
  | IForestObj "iforest_fitted option"
  | ScalerObj "scaler_fitted option"
  | EncodersObj "string \<rightharpoonup> label_encoder"
  | MetricsObj "string \<rightharpoonup> metrics"
  | ImportanceObj "(string \<times> real) list"

type_synonym pickle = "string \<rightharpoonup> pyobj"
type_synonym filesystem = "string \<rightharpoonup> pickle"

definition save_model ::
  "pylib \<Rightarrow> filesystem \<Rightarrow> detector \<Rightarrow> string \<Rightarrow> filesystem \<times> (error + unit)" where
  "save_model lib fs self filepath =
     (let model_data =
            [''xgb_model'' \<mapsto> XgbObj (xgb_model self),
             ''isolation_forest'' \<mapsto> IForestObj (isolation_forest self),
             ''scaler'' \<mapsto> ScalerObj (scaler self),
             ''label_encoders'' \<mapsto> EncodersObj (label_encoders self),
             ''performance_metrics'' \<mapsto> MetricsObj (performance_metrics self),
             ''feature_importance'' \<mapsto> ImportanceObj (feature_importance self)]
      in if writable lib filepath then (fs(filepath \<mapsto> model_data), Inr ())
         else (fs, Inl (OSError filepath)))"

definition load_model :: "filesystem \<Rightarrow> detector \<Rightarrow> string \<Rightarrow> detector \<times> bool" where
  "load_model fs self filepath =
     (case fs filepath of
        None \<Rightarrow> (self, False)
      | Some model_data \<Rightarrow>
     (case model_data ''xgb_model'' of
        Some (XgbObj m) \<Rightarrow>
          (let self = self\<lparr>xgb_model := m\<rparr> in
     (case model_data ''isolation_forest'' of
        Some (IForestObj f) \<Rightarrow>
          (let self = self\<lparr>isolation_forest := f\<rparr> in
     (case model_data ''scaler'' of
        Some (ScalerObj sc) \<Rightarrow>
          (let self = self\<lparr>scaler := sc\<rparr> in
     (case model_data ''label_encoders'' of
        Some (EncodersObj encs) \<Rightarrow>
          (let self = self\<lparr>label_encoders := encs\<rparr> in
     (case model_data ''performance_metrics'' of
        Some (MetricsObj pm) \<Rightarrow>
          (let self = self\<lparr>performance_metrics := pm\<rparr> in
     (case model_data ''feature_importance'' of
        Some (ImportanceObj fi) \<Rightarrow> (self\<lparr>feature_importance := fi\<rparr>, True)
      | _ \<Rightarrow> (self, False)))
      | _ \<Rightarrow> (self, False)))
      | _ \<Rightarrow> (self, False)))
      | _ \<Rightarrow> (self, False)))
      | _ \<Rightarrow> (self, False)))
      | _ \<Rightarrow> (self, False)))"

subsection \<open>api\_server.py: the batch endpoint\<close>

text \<open>
  A validated \<^verbatim>\<open>TransactionRequest\<close> (pydantic has checked the types and ranges before
  the handler runs) and its \<^verbatim>\<open>dict()\<close>.
\<close>

record TransactionRequest =
  transaction_id :: string
  user_id :: string
  amount :: real
  merchant_category :: string
  hour :: int
  day_of_week :: int
  month :: int
  user_age :: int
  account_age_days :: int
  transaction_count_day :: int
  amount_last_hour :: real
  amount_last_day :: real
  velocity_1h :: int
  avg_amount_30d :: real
  std_amount_30d :: real
  geographic_risk :: real
  device_risk :: real
  device_type :: string
  payment_method :: string
  time_since_last_transaction :: int

definition dict :: "TransactionRequest \<Rightarrow> pyrecord" where
  "dict t = map_of
     [(''transaction_id'', Str (transaction_id t)),
      (''user_id'', Str (user_id t)),
      (''amount'', Num (amount t)),
      (''merchant_category'', Str (merchant_category t)),
      (''hour'', Num (real_of_int (hour t))),
      (''day_of_week'', Num (real_of_int (day_of_week t))),
      (''month'', Num (real_of_int (month t))),
      (''user_age'', Num (real_of_int (user_age t))),
      (''account_age_days'', Num (real_of_int (account_age_days t))),
      (''transaction_count_day'', Num (real_of_int (transaction_count_day t))),
      (''amount_last_hour'', Num (amount_last_hour t)),
      (''amount_last_day'', Num (amount_last_day t)),
      (''velocity_1h'', Num (real_of_int (velocity_1h t))),
      (''avg_amount_30d'', Num (avg_amount_30d t)),
      (''std_amount_30d'', Num (std_amount_30d t)),
      (''geographic_risk'', Num (geographic_risk t)),
      (''device_risk'', Num (device_risk t)),
      (''device_type'', Str (device_type t)),
      (''payment_method'', Str (payment_method t)),
      (''time_since_last_transaction'', Num (real_of_int (time_since_last_transaction t)))]"

text \<open>
  The globals of the module, the clock the handler reads (\<^verbatim>\<open>time.time()\<close> before and
  after the loop, \<^verbatim>\<open>datetime.now()\<close> once per transaction and once after the loop), and
  what the handler raises.
\<close>

record api_metrics =
  total_predictions :: nat
  total_processing_time :: real
  last_prediction_time :: "val option"

record api_state =
  fraud_detector :: "detector option"
  metrics_of :: api_metrics

record clock =
  time_start :: real
  time_end :: real
  now :: "nat \<Rightarrow> val"

datatype http_error = HTTPException nat "error option"

record batch_item =
  item_transaction_id :: string
  item_fraud_score :: real
  item_risk_level :: string
  item_action :: string
  item_is_fraud_predicted :: bool

record batch_response =
  predictions :: "batch_item list"
  total_transactions :: nat
  processing_time_ms :: real
  avg_time_per_transaction_ms :: real

text \<open>The \<^verbatim>\<open>for\<close> loop of lines 221 to 234; \<open>i\<close> counts the readings of the clock.\<close>

fun batch_loop ::
  "pylib \<Rightarrow> clock \<Rightarrow> nat \<Rightarrow> detector \<Rightarrow> TransactionRequest list
     \<Rightarrow> detector \<times> (error + batch_item list)" where
  "batch_loop lib clk i self [] = (self, Inr [])"
| "batch_loop lib clk i self (transaction # rest) =
     (let transaction_dict = (dict transaction)(''timestamp'' \<mapsto> now clk i)
      in case predict lib self transaction_dict of
           (self', Inl e) \<Rightarrow> (self', Inl e)
         | (self', Inr result) \<Rightarrow>
             (let prediction_result =
                    \<lparr>item_transaction_id = transaction_id transaction,
                     item_fraud_score = fraud_score result,
                     item_risk_level = risk_level result,
                     item_action = action result,
                     item_is_fraud_predicted = is_fraud_predicted result\<rparr>
              in case batch_loop lib clk (Suc i) self' rest of
                   (self'', Inl e) \<Rightarrow> (self'', Inl e)
                 | (self'', Inr results) \<Rightarrow> (self'', Inr (prediction_result # results))))"

text \<open>Python's \<^verbatim>\<open>float / int\<close>: a zero divisor raises ZeroDivisionError.\<close>

definition float_div :: "real \<Rightarrow> nat \<Rightarrow> error + real" where
  "float_div a n = (if n = 0 then Inl ZeroDivisionError else Inr (a / real n))"

text \<open>
  \<^verbatim>\<open>batch_predict\<close>: 503 without a detector; every exception of the \<^verbatim>\<open>try\<close> block
  becomes a 500. The counters are updated before the response dict is built.
\<close>

definition batch_predict ::
  "pylib \<Rightarrow> clock \<Rightarrow> api_state \<Rightarrow> TransactionRequest list
     \<Rightarrow> api_state \<times> (http_error + batch_response)" where
  "batch_predict lib clk st transactions =
     (case fraud_detector st of
        None \<Rightarrow> (st, Inl (HTTPException 503 None))
      | Some self \<Rightarrow>
          (case batch_loop lib clk 0 self transactions of
             (self', Inl e) \<Rightarrow> (st\<lparr>fraud_detector := Some self'\<rparr>, Inl (HTTPException 500 (Some e)))
           | (self', Inr results) \<Rightarrow>
               (let processing_time = (time_end clk - time_start clk) * 1000;
                    m = metrics_of st;
                    m' = m\<lparr>total_predictions := total_predictions m + length transactions,
                           total_processing_time := total_processing_time m + processing_time,
                           last_prediction_time := Some (now clk (length transactions))\<rparr>;
                    st' = st\<lparr>fraud_detector := Some self', metrics_of := m'\<rparr>
                in case float_div processing_time (length transactions) of
                     Inl e \<Rightarrow> (st', Inl (HTTPException 500 (Some e)))
                   | Inr avg \<Rightarrow>
                       (st', Inr \<lparr>predictions = results,
                                  total_transactions = length transactions,
                                  processing_time_ms = processing_time,
                                  avg_time_per_transaction_ms = avg\<rparr>))))"

subsection \<open>Concrete inputs used by the witnesses\<close>

definition ex_xgb :: xgb_fitted where
  "ex_xgb = \<lparr>predict_proba1 = (\<lambda>row. Inr (1/2)), predict_class = (\<lambda>row. Inr 0),
            feature_importances = []\<rparr>"

definition ex_lib :: pylib where
  "ex_lib = \<lparr>to_datetime = Inr, str_of_num = (\<lambda>x. ''0''),
      train_test_split = (\<lambda>X y. Inr (take 1 X, drop 1 X, take 1 y, drop 1 y)),
      scaler_fit = (\<lambda>columns X. Inr (\<lambda>columns row. Inr (map (\<lambda>v. 0) row))),
      iforest_fit = (\<lambda>X. Inr (\<lambda>row. Inr 0)),
      smote_fit_resample = (\<lambda>X y. Inr (X @ X, y @ y)),
      xgb_fit = (\<lambda>X y ev. Inr ex_xgb),
      roc_auc_score = (\<lambda>y p. Inr (1/2)),
      confusion_matrix_ravel = (\<lambda>y p. Inr [1, 0, 0, 0]),
      writable = (\<lambda>p. True)\<rparr>"

definition ex_detector :: detector where
  "ex_detector = \<lparr>xgb_model = Some ex_xgb, isolation_forest = Some (\<lambda>row. Inr 0),
       scaler = Some (\<lambda>columns row. Inr (map (\<lambda>v. 0) row)),
       label_encoders = [''merchant_category'' \<mapsto> [''grocery'']],
       performance_metrics = Map.empty, feature_importance = []\<rparr>"

definition ex_record :: pyrecord where
  "ex_record = [''timestamp'' \<mapsto> Str ''2024-01-01'', ''day_of_week'' \<mapsto> Num 5,
     ''hour'' \<mapsto> Num 2, ''amount'' \<mapsto> Num 0, ''velocity_1h'' \<mapsto> Num 1,
     ''avg_amount_30d'' \<mapsto> Num 1, ''std_amount_30d'' \<mapsto> Num 1,
     ''geographic_risk'' \<mapsto> Num 0, ''device_risk'' \<mapsto> Num 0,
     ''merchant_category'' \<mapsto> Str ''grocery'']"

definition ex_unseen :: pyrecord where
  "ex_unseen = ex_record(''merchant_category'' \<mapsto> Str ''casino'')"

definition ex_frame :: dataframe where
  "ex_frame = \<lparr>nrows = 2, cols =
     [''timestamp'' \<mapsto> [Str ''2024-01-01'', Str ''2024-01-02''],
      ''day_of_week'' \<mapsto> [Num 5, Num 1],
      ''hour'' \<mapsto> [Num 2, Num 14], ''amount'' \<mapsto> [Num 0, Num 0],
      ''velocity_1h'' \<mapsto> [Num 1, Num 1],
      ''avg_amount_30d'' \<mapsto> [Num 1, Num 1], ''std_amount_30d'' \<mapsto> [Num 1, Num 1],
      ''geographic_risk'' \<mapsto> [Num 0, Num 0], ''device_risk'' \<mapsto> [Num 0, Num 0],
      ''merchant_category'' \<mapsto> [Str ''grocery'', Str ''grocery''],
      ''is_fraud'' \<mapsto> [Num 0, Num 1]]\<rparr>"

definition ex_path :: string where
  "ex_path = ''models/fraud_detector.pkl''"


section \<open>Properties\<close>

subsection \<open>Auxiliary facts\<close>

lemma bindE_Inr: "bindE m f = Inr v \<Longrightarrow> \<exists>u. m = Inr u \<and> f u = Inr v"
  by (cases m) (simp_all add: bindE_def)

lemma mapE_Cons_Inr:
  "mapE f xs = Inr (v # vs) \<Longrightarrow> \<exists>x xs'. xs = x # xs' \<and> f x = Inr v \<and> mapE f xs' = Inr vs"
  by (cases xs) (auto simp: mapE_def split: sum.splits)

lemma cols_setcol: "cols (setcol data k c) h = (if h = k then Some c else cols data h)"
  by (simp add: setcol_def)

lemma classify_cases:
  "classify s =
     (if 0.8 \<le> s then (''HIGH'', ''BLOCK'')
      else if 0.5 \<le> s then (''MEDIUM'', ''ALERT'')
      else if 0.2 \<le> s then (''LOW'', ''MONITOR'')
      else (''MINIMAL'', ''APPROVE''))"
  by (simp add: classify_def FRAUD_THRESHOLD_HIGH_def FRAUD_THRESHOLD_MEDIUM_def
      FRAUD_THRESHOLD_LOW_def)

lemma sigmoid_range: "0 < sigmoid s \<and> sigmoid s < 1"
proof -
  have "0 < exp (- s)" by simp
  then show ?thesis by (simp add: sigmoid_def add_pos_pos)
qed

lemma add_timestamp_cols:
  "add_timestamp lib data = Inr data' \<Longrightarrow> k \<noteq> ''timestamp'' \<Longrightarrow> cols data' k = cols data k"
  by (auto simp: add_timestamp_def cols_setcol dest!: bindE_Inr)

lemma add_is_weekend_cols:
  "add_is_weekend data = Inr data' \<Longrightarrow> k \<noteq> ''is_weekend'' \<Longrightarrow> cols data' k = cols data k"
  by (auto simp: add_is_weekend_def cols_setcol dest!: bindE_Inr)

lemma add_is_night_cols:
  "add_is_night data = Inr data' \<Longrightarrow> k \<noteq> ''is_night'' \<Longrightarrow> cols data' k = cols data k"
  by (auto simp: add_is_night_def cols_setcol dest!: bindE_Inr)

lemma add_amount_log_cols:
  "add_amount_log data = Inr data' \<Longrightarrow> k \<noteq> ''amount_log'' \<Longrightarrow> cols data' k = cols data k"
  by (auto simp: add_amount_log_def cols_setcol dest!: bindE_Inr)

lemma add_velocity_risk_cols:
  "add_velocity_risk data = Inr data' \<Longrightarrow> k \<noteq> ''velocity_risk'' \<Longrightarrow> cols data' k = cols data k"
  by (auto simp: add_velocity_risk_def cols_setcol dest!: bindE_Inr)

lemma add_amount_deviation_cols:
  "add_amount_deviation data = Inr data' \<Longrightarrow> k \<noteq> ''amount_deviation'' \<Longrightarrow> cols data' k = cols data k"
  by (auto simp: add_amount_deviation_def cols_setcol dest!: bindE_Inr)

lemma add_total_risk_score_cols:
  "add_total_risk_score data = Inr data' \<Longrightarrow> k \<noteq> ''total_risk_score'' \<Longrightarrow> cols data' k = cols data k"
  by (auto simp: add_total_risk_score_def cols_setcol dest!: bindE_Inr)

lemma derive_columns_cols:
  assumes "derive_columns lib df = Inr data"
    and "k \<notin> {''timestamp'', ''is_weekend'', ''is_night'', ''amount_log'', ''velocity_risk'',
               ''amount_deviation'', ''total_risk_score''}"
  shows "cols data k = cols df k"
proof -
  from assms(1) obtain d1 d2 d3 d4 d5 d6 where
    "add_timestamp lib df = Inr d1" "add_is_weekend d1 = Inr d2" "add_is_night d2 = Inr d3"
    "add_amount_log d3 = Inr d4" "add_velocity_risk d4 = Inr d5" "add_amount_deviation d5 = Inr d6"
    "add_total_risk_score d6 = Inr data"
    unfolding derive_columns_def by (blast dest!: bindE_Inr)
  with assms(2) show ?thesis
    by (simp add: add_timestamp_cols add_is_weekend_cols add_is_night_cols add_amount_log_cols
        add_velocity_risk_cols add_amount_deviation_cols add_total_risk_score_cols)
qed

lemma le_transform_Inl: "le_transform classes ys = Inl e \<Longrightarrow> \<exists>ls. e = UnseenLabels ls"
  by (auto simp: le_transform_def Let_def split: if_splits)

lemma le_transform_unseen:
  "y \<in> set ys \<Longrightarrow> y \<notin> set classes \<Longrightarrow> \<exists>ls. le_transform classes ys = Inl (UnseenLabels ls)"
  by (auto simp: le_transform_def Let_def filter_empty_conv)

lemma CATEGORICAL_FEATURES_names:
  "\<forall>g\<in>set CATEGORICAL_FEATURES. \<forall>h\<in>set CATEGORICAL_FEATURES. g @ ''_encoded'' \<noteq> h"
  by (simp add: CATEGORICAL_FEATURES_def)

lemma encode_features_frozen:
  assumes "\<forall>f\<in>set fs. cols data f \<noteq> None \<longrightarrow> encs f \<noteq> None"
    and "\<forall>g\<in>set fs. \<forall>h\<in>set fs. g @ ''_encoded'' \<noteq> h"
  shows "fst (encode_features lib fs encs data) = encs"
  using assms
proof (induction fs arbitrary: data)
  case Nil
  then show ?case by simp
next
  case (Cons f fs)
  show ?case
  proof (cases "cols data f")
    case None
    with Cons show ?thesis by simp
  next
    case (Some c)
    with Cons.prems(1) obtain classes where cl: "encs f = Some classes" by auto
    show ?thesis
    proof (cases "le_transform classes (map (astype_str lib) c)")
      case (Inl e)
      with Some cl show ?thesis by simp
    next
      case (Inr codes)
      have "\<forall>h\<in>set fs. cols (setcol data (f @ ''_encoded'') codes) h \<noteq> None \<longrightarrow> encs h \<noteq> None"
        using Cons.prems by (auto simp: cols_setcol)
      moreover have "\<forall>g\<in>set fs. \<forall>h\<in>set fs. g @ ''_encoded'' \<noteq> h"
        using Cons.prems(2) by simp
      ultimately have "fst (encode_features lib fs encs (setcol data (f @ ''_encoded'') codes)) = encs"
        by (rule Cons.IH)
      with Some cl Inr show ?thesis by simp
    qed
  qed
qed

lemma encode_features_unseen:
  assumes "f \<in> set fs" and "encs f = Some classes" and "cols data f = Some c"
    and "v \<in> set c" and "astype_str lib v \<notin> set classes"
    and "\<forall>g\<in>set fs. \<forall>h\<in>set fs. g @ ''_encoded'' \<noteq> h"
  shows "\<exists>ls. snd (encode_features lib fs encs data) = Inl (UnseenLabels ls)"
  using assms
proof (induction fs arbitrary: encs data)
  case Nil
  then show ?case by simp
next
  case (Cons g fs)
  have names: "\<forall>g\<in>set fs. \<forall>h\<in>set fs. g @ ''_encoded'' \<noteq> h"
    using Cons.prems(6) by simp
  show ?case
  proof (cases "g = f")
    case True
    from Cons.prems(4,5) obtain ls where
      "le_transform classes (map (astype_str lib) c) = Inl (UnseenLabels ls)"
      using le_transform_unseen [of "astype_str lib v" "map (astype_str lib) c" classes] by auto
    with True Cons.prems(2,3) show ?thesis by auto
  next
    case False
    with Cons.prems(1) have fin: "f \<in> set fs" by simp
    have fne: "g @ ''_encoded'' \<noteq> f" using Cons.prems(1,6) by auto
    show ?thesis
    proof (cases "cols data g")
      case None
      have "\<exists>ls. snd (encode_features lib fs encs data) = Inl (UnseenLabels ls)"
        using fin Cons.prems(2,3,4,5) names by (rule Cons.IH)
      with None show ?thesis by simp
    next
      case (Some c')
      let ?strs = "map (astype_str lib) c'"
      show ?thesis
      proof (cases "encs g")
        case None
        let ?encs = "encs(g \<mapsto> le_fit ?strs)"
        show ?thesis
        proof (cases "le_transform (le_fit ?strs) ?strs")
          case (Inl e)
          with le_transform_Inl obtain ls where "e = UnseenLabels ls" by blast
          with Some None Inl show ?thesis by (simp add: Let_def)
        next
          case (Inr codes)
          have e: "?encs f = Some classes" using False Cons.prems(2) by simp
          have d: "cols (setcol data (g @ ''_encoded'') codes) f = Some c"
            using fne Cons.prems(3) by (simp add: cols_setcol)
          have "\<exists>ls. snd (encode_features lib fs ?encs (setcol data (g @ ''_encoded'') codes))
                  = Inl (UnseenLabels ls)"
            using fin e d Cons.prems(4,5) names by (rule Cons.IH)
          then obtain ls where
            "snd (encode_features lib fs ?encs (setcol data (g @ ''_encoded'') codes)) = Inl (UnseenLabels ls)"
            by blast
          with Some None Inr show ?thesis by (simp add: Let_def)
        qed
      next
        case (Some cl')
        note encg = this
        show ?thesis
        proof (cases "le_transform cl' ?strs")
          case (Inl e)
          with le_transform_Inl obtain ls where "e = UnseenLabels ls" by blast
          with \<open>cols data g = Some c'\<close> encg Inl show ?thesis by simp
        next
          case (Inr codes)
          have d: "cols (setcol data (g @ ''_encoded'') codes) f = Some c"
            using fne Cons.prems(3) by (simp add: cols_setcol)
          have "\<exists>ls. snd (encode_features lib fs encs (setcol data (g @ ''_encoded'') codes))
                  = Inl (UnseenLabels ls)"
            using fin Cons.prems(2) d Cons.prems(4,5) names by (rule Cons.IH)
          then obtain ls where
            "snd (encode_features lib fs encs (setcol data (g @ ''_encoded'') codes)) = Inl (UnseenLabels ls)"
            by blast
          with \<open>cols data g = Some c'\<close> encg Inr show ?thesis by simp
        qed
      qed
    qed
  qed
qed

lemma preprocess_data_Inl:
  "derive_columns lib df = Inl e \<Longrightarrow> preprocess_data lib self df = (self, Inl e)"
  by (simp add: preprocess_data_def)

lemma preprocess_data_encode:
  "derive_columns lib df = Inr data \<Longrightarrow>
   snd (preprocess_data lib self df) =
     (case snd (encode_features lib CATEGORICAL_FEATURES (label_encoders self) data) of
        Inl e \<Rightarrow> Inl e | Inr data' \<Rightarrow> Inr (select_features data', data')) \<and>
   fst (preprocess_data lib self df) =
     self\<lparr>label_encoders := fst (encode_features lib CATEGORICAL_FEATURES (label_encoders self) data)\<rparr>"
  by (simp add: preprocess_data_def split: prod.splits sum.splits)

lemma preprocess_data_self:
  "\<exists>encs. fst (preprocess_data lib self df) = self\<lparr>label_encoders := encs\<rparr>"
proof (cases "derive_columns lib df")
  case (Inl e)
  then have "fst (preprocess_data lib self df) = self\<lparr>label_encoders := label_encoders self\<rparr>"
    by (simp add: preprocess_data_def)
  then show ?thesis by blast
next
  case (Inr data)
  obtain encs r where "encode_features lib CATEGORICAL_FEATURES (label_encoders self) data = (encs, r)"
    by (cases "encode_features lib CATEGORICAL_FEATURES (label_encoders self) data")
  with Inr have "fst (preprocess_data lib self df) = self\<lparr>label_encoders := encs\<rparr>"
    by (cases r) (simp_all add: preprocess_data_def)
  then show ?thesis by blast
qed

lemma predict_frame_Inl:
  "snd (preprocess_data lib self df) = Inl e \<Longrightarrow> snd (predict_frame lib self df) = Inl e"
  by (cases "preprocess_data lib self df") (simp add: predict_frame_def)

lemma predict_frame_Inr:
  assumes "predict_frame lib self df = (self', Inr res)"
  shows "\<exists>X data X_scaled xgb_proba isolation_sc f0 x0 i0 fs xs is.
           preprocess_data lib self df = (self', Inr (X, data)) \<and>
           scaler_transform self' (map fst X) (rows_of (nrows df) X) = Inr X_scaled \<and>
           xgb_predict_proba self' X_scaled = Inr xgb_proba \<and>
           decision_function self' X_scaled = Inr isolation_sc \<and>
           map2 fuse xgb_proba (map sigmoid isolation_sc) = f0 # fs \<and>
           xgb_proba = x0 # xs \<and> map sigmoid isolation_sc = i0 # is \<and>
           res = make_result f0 x0 i0"
proof -
  obtain s1 r1 where pp: "preprocess_data lib self df = (s1, r1)"
    by (cases "preprocess_data lib self df")
  show ?thesis
  proof (cases r1)
    case (Inl e)
    with pp assms show ?thesis by (simp add: predict_frame_def)
  next
    case (Inr p)
    obtain X data where p: "p = (X, data)" by (cases p)
    show ?thesis
    proof (cases "scaler_transform s1 (map fst X) (rows_of (nrows df) X)")
      case (Inl e)
      with pp Inr p assms show ?thesis by (simp add: predict_frame_def)
    next
      case sc: (Inr X_scaled)
      show ?thesis
      proof (cases "xgb_predict_proba s1 X_scaled")
        case (Inl e)
        with pp Inr p sc assms show ?thesis by (simp add: predict_frame_def)
      next
        case xg: (Inr xgb_proba)
        show ?thesis
        proof (cases "decision_function s1 X_scaled")
          case (Inl e)
          with pp Inr p sc xg assms show ?thesis by (simp add: predict_frame_def)
        next
          case df: (Inr isolation_sc)
          with pp Inr p sc xg assms show ?thesis
            by (auto simp add: predict_frame_def Let_def split: list.splits)
        qed
      qed
    qed
  qed
qed

text \<open>What a successful prediction is made of.\<close>

lemma predict_frame_shape:
  assumes "predict_frame lib self df = (self', Inr res)"
  shows "\<exists>m row x s. xgb_model self' = Some m \<and> predict_proba1 m row = Inr x \<and>
           res = make_result (fuse x (sigmoid s)) x (sigmoid s)"
proof -
  from predict_frame_Inr [OF assms] obtain X_scaled xgb_proba isolation_sc f0 x0 i0 fs xs "is"
    where xg: "xgb_predict_proba self' X_scaled = Inr xgb_proba"
      and m2: "map2 fuse xgb_proba (map sigmoid isolation_sc) = f0 # fs"
      and x0: "xgb_proba = x0 # xs" and i0: "map sigmoid isolation_sc = i0 # is"
      and res: "res = make_result f0 x0 i0"
    by (elim exE conjE)
  from i0 obtain s ss where s: "isolation_sc = s # ss" "i0 = sigmoid s" by auto
  from m2 x0 s have f0: "f0 = fuse x0 (sigmoid s)" by simp
  from xg x0 obtain m where m: "xgb_model self' = Some m" "mapE (predict_proba1 m) X_scaled = Inr (x0 # xs)"
    by (auto simp: xgb_predict_proba_def split: option.splits)
  from mapE_Cons_Inr [OF m(2)] obtain row where "predict_proba1 m row = Inr x0" by blast
  with m(1) res f0 s(2) show ?thesis by blast
qed

lemma predict_frame_self:
  "fst (predict_frame lib self df) = fst (preprocess_data lib self df)"
proof -
  obtain s1 r1 where pp: "preprocess_data lib self df = (s1, r1)"
    by (cases "preprocess_data lib self df")
  show ?thesis
  proof (cases r1)
    case (Inl e)
    with pp show ?thesis by (simp add: predict_frame_def)
  next
    case (Inr p)
    obtain X data where p: "p = (X, data)" by (cases p)
    from pp Inr p show ?thesis
      by (simp add: predict_frame_def Let_def split: sum.splits list.splits)
  qed
qed


lemma mapE_single: "mapE f [x] = Inr ys \<Longrightarrow> \<exists>y. f x = Inr y \<and> ys = [y]"
  by (auto simp: mapE_def split: sum.splits)

lemma rows_of_one: "rows_of (Suc 0) X = [map (\<lambda>(name, c). c ! 0) X]"
  by (simp add: rows_of_def)

lemma predict_Inr:
  assumes "predict lib self r = (self', Inr res)"
  shows "\<exists>X data sc m forest row p s.
           preprocess_data lib self (DataFrame_of_dict r) = (self', Inr (X, data)) \<and>
           scaler self = Some sc \<and> xgb_model self = Some m \<and> isolation_forest self = Some forest \<and>
           sc (map fst X) (map (\<lambda>(name, c). c ! 0) X) = Inr row \<and>
           predict_proba1 m row = Inr p \<and> forest row = Inr s \<and>
           res = make_result (fuse p (sigmoid s)) p (sigmoid s)"
proof -
  let ?df = "DataFrame_of_dict r"
  from assms have pf: "predict_frame lib self ?df = (self', Inr res)" by (simp add: predict_def)
  from predict_frame_Inr [OF pf] obtain X data X_scaled xgb_proba isolation_sc f0 x0 i0 fs xs "is"
    where pp: "preprocess_data lib self ?df = (self', Inr (X, data))"
      and st: "scaler_transform self' (map fst X) (rows_of (nrows ?df) X) = Inr X_scaled"
      and xg: "xgb_predict_proba self' X_scaled = Inr xgb_proba"
      and dc: "decision_function self' X_scaled = Inr isolation_sc"
      and m2: "map2 fuse xgb_proba (map sigmoid isolation_sc) = f0 # fs"
      and x0: "xgb_proba = x0 # xs" and i0: "map sigmoid isolation_sc = i0 # is"
      and res: "res = make_result f0 x0 i0"
    by (elim exE conjE)
  obtain encs where "fst (preprocess_data lib self ?df) = self\<lparr>label_encoders := encs\<rparr>"
    using preprocess_data_self [of lib self ?df] by (elim exE)
  with pp have same: "scaler self' = scaler self" "xgb_model self' = xgb_model self"
    "isolation_forest self' = isolation_forest self" by simp_all
  have n: "nrows ?df = 1" by (simp add: DataFrame_of_dict_def)
  from st n obtain sc where sc: "scaler self' = Some sc"
    and ms: "mapE (sc (map fst X)) [map (\<lambda>(name, c). c ! 0) X] = Inr X_scaled"
    by (auto simp: scaler_transform_def rows_of_one split: option.splits)
  from mapE_single [OF ms] obtain row where
    row: "sc (map fst X) (map (\<lambda>(name, c). c ! 0) X) = Inr row" "X_scaled = [row]" by blast
  from xg row(2) obtain m where m: "xgb_model self' = Some m"
    and mx: "mapE (predict_proba1 m) [row] = Inr xgb_proba"
    by (auto simp: xgb_predict_proba_def split: option.splits)
  from mapE_single [OF mx] obtain p where p: "predict_proba1 m row = Inr p" "xgb_proba = [p]" by blast
  from dc row(2) obtain forest where f: "isolation_forest self' = Some forest"
    and mf: "mapE forest [row] = Inr isolation_sc"
    by (auto simp: decision_function_def split: option.splits)
  from mapE_single [OF mf] obtain s where s: "forest row = Inr s" "isolation_sc = [s]" by blast
  from m2 x0 i0 p(2) s(2) res have "res = make_result (fuse p (sigmoid s)) p (sigmoid s)"
    by simp
  with pp sc m f row(1) p(1) s(1) same show ?thesis by simp
qed


lemma detector_eqI:
  "xgb_model a = xgb_model b \<Longrightarrow> isolation_forest a = isolation_forest b \<Longrightarrow>
   scaler a = scaler b \<Longrightarrow> label_encoders a = label_encoders b \<Longrightarrow>
   performance_metrics a = performance_metrics b \<Longrightarrow>
   feature_importance a = feature_importance b \<Longrightarrow> a = (b :: detector)"
  by simp

lemma store_metrics_self:
  "\<exists>pm. fst (store_metrics lib y_test ms self) = self\<lparr>performance_metrics := pm\<rparr>"
proof (induction ms arbitrary: self)
  case Nil
  have "fst (store_metrics lib y_test [] self) = self\<lparr>performance_metrics := performance_metrics self\<rparr>"
    by simp
  then show ?case by blast
next
  case (Cons a ms)
  obtain model_name pred proba where a: "a = (model_name, pred, proba)" by (cases a)
  show ?case
  proof (cases "model_metrics lib y_test pred proba")
    case (Inl e)
    with a have "fst (store_metrics lib y_test (a # ms) self)
        = self\<lparr>performance_metrics := performance_metrics self\<rparr>" by simp
    then show ?thesis by blast
  next
    case (Inr m)
    let ?self = "self\<lparr>performance_metrics := (performance_metrics self)(model_name \<mapsto> m)\<rparr>"
    from Cons [of ?self] obtain pm where
      "fst (store_metrics lib y_test ms ?self) = ?self\<lparr>performance_metrics := pm\<rparr>" by blast
    with a Inr have "fst (store_metrics lib y_test (a # ms) self) = self\<lparr>performance_metrics := pm\<rparr>"
      by simp
    then show ?thesis by blast
  qed
qed

lemma evaluate_models_self:
  "\<exists>pm. fst (evaluate_models lib self X_test y_test isolation_pred)
          = self\<lparr>performance_metrics := pm\<rparr>"
proof -
  let ?r = "bindE (xgb_predict_proba self X_test) (\<lambda>xgb_proba.
        bindE (case xgb_model self of None \<Rightarrow> Inl NotFittedError
               | Some m \<Rightarrow> mapE (predict_class m) X_test) (\<lambda>xgb_pred.
        bindE (minmax_normalize isolation_pred) (\<lambda>isolation_proba.
        bindE (hybrid_proba xgb_proba isolation_pred) (\<lambda>hybrid.
        Inr [(''XGBoost'', xgb_pred, map Num xgb_proba),
             (''Isolation Forest'', map lt_zero isolation_pred, map one_minus isolation_proba),
             (''Hybrid Model'', map gt_half hybrid, hybrid)]))))"
  show ?thesis
  proof (cases ?r)
    case (Inl e)
    then have "fst (evaluate_models lib self X_test y_test isolation_pred)
        = self\<lparr>performance_metrics := performance_metrics self\<rparr>"
      by (simp add: evaluate_models_def)
    then show ?thesis by blast
  next
    case (Inr ms)
    then have "fst (evaluate_models lib self X_test y_test isolation_pred)
        = fst (store_metrics lib y_test ms self)"
      by (simp add: evaluate_models_def)
    with store_metrics_self [of lib y_test ms self] show ?thesis by simp
  qed
qed

lemma fit_learners_Inr:
  assumes "fit_learners lib self columns X_train X_test y_train y_test = (self', Inr pm)"
  shows "\<exists>sc X_train_scaled X_test_scaled forest isolation_test_pred X_train_balanced
            y_train_balanced m.
           scaler_fit lib columns X_train = Inr sc \<and>
           mapE (sc columns) X_train = Inr X_train_scaled \<and>
           mapE (sc columns) X_test = Inr X_test_scaled \<and>
           iforest_fit lib X_train_scaled = Inr forest \<and>
           mapE forest X_test_scaled = Inr isolation_test_pred \<and>
           smote_fit_resample lib X_train_scaled y_train = Inr (X_train_balanced, y_train_balanced) \<and>
           xgb_fit lib X_train_balanced y_train_balanced (X_test_scaled, y_test) = Inr m \<and>
           evaluate_models lib
             (self\<lparr>scaler := Some sc, isolation_forest := Some forest, xgb_model := Some m,
                   feature_importance := zip columns (feature_importances m)\<rparr>)
             X_test_scaled y_test isolation_test_pred = (self', Inr ()) \<and>
           pm = performance_metrics self'"
proof (cases "scaler_fit lib columns X_train")
  case (Inl e)
  with assms show ?thesis by (simp add: fit_learners_def)
next
  case sc: (Inr sc)
  show ?thesis
  proof (cases "mapE (sc columns) X_train")
    case (Inl e)
    with assms sc show ?thesis by (simp add: fit_learners_def)
  next
    case xtr: (Inr X_train_scaled)
    show ?thesis
    proof (cases "mapE (sc columns) X_test")
      case (Inl e)
      with assms sc xtr show ?thesis by (simp add: fit_learners_def)
    next
      case xte: (Inr X_test_scaled)
      show ?thesis
      proof (cases "iforest_fit lib X_train_scaled")
        case (Inl e)
        with assms sc xtr xte show ?thesis by (simp add: fit_learners_def)
      next
        case fo: (Inr forest)
        show ?thesis
        proof (cases "mapE forest X_train_scaled")
          case (Inl e)
          with assms sc xtr xte fo show ?thesis by (simp add: fit_learners_def)
        next
          case itr: (Inr isolation_train_pred)
          show ?thesis
          proof (cases "mapE forest X_test_scaled")
            case (Inl e)
            with assms sc xtr xte fo itr show ?thesis by (simp add: fit_learners_def)
          next
            case ite: (Inr isolation_test_pred)
            show ?thesis
            proof (cases "smote_fit_resample lib X_train_scaled y_train")
              case (Inl e)
              with assms sc xtr xte fo itr ite show ?thesis by (simp add: fit_learners_def)
            next
              case (Inr bal)
              obtain X_train_balanced y_train_balanced where
                bal: "bal = (X_train_balanced, y_train_balanced)" by (cases bal)
              show ?thesis
              proof (cases "xgb_fit lib X_train_balanced y_train_balanced (X_test_scaled, y_test)")
                case (Inl e)
                with assms sc xtr xte fo itr ite Inr bal show ?thesis
                  by (simp add: fit_learners_def)
              next
                case m: (Inr m)
                let ?self = "self\<lparr>scaler := Some sc, isolation_forest := Some forest,
                   xgb_model := Some m, feature_importance := zip columns (feature_importances m)\<rparr>"
                obtain s2 r2 where
                  ev: "evaluate_models lib ?self X_test_scaled y_test isolation_test_pred = (s2, r2)"
                  by (cases "evaluate_models lib ?self X_test_scaled y_test isolation_test_pred")
                from assms sc xtr xte fo itr ite Inr bal m ev
                have "s2 = self' \<and> r2 = Inr () \<and> pm = performance_metrics self'"
                  by (cases r2) (auto simp: fit_learners_def Let_def)
                with sc xtr xte fo ite Inr bal m ev show ?thesis by simp
              qed
            qed
          qed
        qed
      qed
    qed
  qed
qed

subsection \<open>The example inputs, evaluated\<close>

lemma ex_derive: "derive_columns ex_lib (DataFrame_of_dict ex_record) =
   Inr (DataFrame_of_dict (ex_record(''is_weekend'' \<mapsto> Num 1, ''is_night'' \<mapsto> Num 1,
     ''amount_log'' \<mapsto> Num 0, ''velocity_risk'' \<mapsto> Num (1/2), ''amount_deviation'' \<mapsto> Num (1/2),
     ''total_risk_score'' \<mapsto> Num 0)))"
  apply (simp add: derive_columns_def add_timestamp_def add_is_weekend_def add_is_night_def
     add_amount_log_def add_velocity_risk_def add_amount_deviation_def add_total_risk_score_def
     bindE_def getcol_def setcol_def DataFrame_of_dict_def ex_record_def ex_lib_def mapE_def map2E_def
     isin_def log1p_def py_add_def py_sub_def py_div_def py_abs_def)
  apply (rule ext)
  apply simp
  done

lemma ex_predict: "predict ex_lib ex_detector ex_record =
   (ex_detector, Inr \<lparr>fraud_score = 1/2, xgb_score = 1/2, isolation_score = 1/2,
       risk_level = ''MEDIUM'', action = ''ALERT'', is_fraud_predicted = False\<rparr>)"
  apply (simp add: predict_def predict_frame_def preprocess_data_def ex_derive)
  apply (simp add: DataFrame_of_dict_def CATEGORICAL_FEATURES_def ex_record_def ex_detector_def
    le_transform_def setcol_def ex_lib_def astype_str_def select_features_def feature_columns_def
    scaler_transform_def rows_of_def mapE_def xgb_predict_proba_def decision_function_def ex_xgb_def
    sigmoid_def fuse_def make_result_def classify_def FRAUD_THRESHOLD_HIGH_def FRAUD_THRESHOLD_MEDIUM_def FRAUD_THRESHOLD_LOW_def)
  done

lemma ex_preprocess_init:
  "preprocess_data ex_lib init (DataFrame_of_dict ex_record) =
     (init\<lparr>label_encoders := [''merchant_category'' \<mapsto> [''grocery'']]\<rparr>,
      Inr (select_features (setcol (DataFrame_of_dict (ex_record(''is_weekend'' \<mapsto> Num 1, ''is_night'' \<mapsto> Num 1,
     ''amount_log'' \<mapsto> Num 0, ''velocity_risk'' \<mapsto> Num (1/2), ''amount_deviation'' \<mapsto> Num (1/2),
     ''total_risk_score'' \<mapsto> Num 0))) ''merchant_category_encoded'' [Num 0]),
       setcol (DataFrame_of_dict (ex_record(''is_weekend'' \<mapsto> Num 1, ''is_night'' \<mapsto> Num 1,
     ''amount_log'' \<mapsto> Num 0, ''velocity_risk'' \<mapsto> Num (1/2), ''amount_deviation'' \<mapsto> Num (1/2),
     ''total_risk_score'' \<mapsto> Num 0))) ''merchant_category_encoded'' [Num 0]))"
  apply (simp add: preprocess_data_def ex_derive)
  apply (simp add: DataFrame_of_dict_def CATEGORICAL_FEATURES_def ex_record_def init_def
    le_transform_def le_fit_def setcol_def ex_lib_def astype_str_def)
  done

lemma ex_derive_unseen: "derive_columns ex_lib (DataFrame_of_dict ex_unseen) =
   Inr (DataFrame_of_dict (ex_unseen(''is_weekend'' \<mapsto> Num 1, ''is_night'' \<mapsto> Num 1,
     ''amount_log'' \<mapsto> Num 0, ''velocity_risk'' \<mapsto> Num (1/2), ''amount_deviation'' \<mapsto> Num (1/2),
     ''total_risk_score'' \<mapsto> Num 0)))"
  apply (simp add: derive_columns_def add_timestamp_def add_is_weekend_def add_is_night_def
     add_amount_log_def add_velocity_risk_def add_amount_deviation_def add_total_risk_score_def
     bindE_def getcol_def setcol_def DataFrame_of_dict_def ex_unseen_def ex_record_def ex_lib_def mapE_def map2E_def
     isin_def log1p_def py_add_def py_sub_def py_div_def py_abs_def)
  apply (rule ext)
  apply simp
  done

lemma ex_train: "\<not> isl (snd (train ex_lib init ex_frame))"
  apply (simp add: train_def preprocess_data_def derive_columns_def add_timestamp_def add_is_weekend_def add_is_night_def
     add_amount_log_def add_velocity_risk_def add_amount_deviation_def add_total_risk_score_def
     bindE_def getcol_def setcol_def ex_frame_def ex_lib_def mapE_def map2E_def
     isin_def log1p_def py_add_def py_sub_def py_div_def py_abs_def
     CATEGORICAL_FEATURES_def init_def le_transform_def le_fit_def astype_str_def
     select_features_def feature_columns_def rows_of_def fit_learners_def evaluate_models_def
     xgb_predict_proba_def ex_xgb_def minmax_normalize_def hybrid_proba_def model_metrics_def
     Let_def numeral_2_eq_2 hybrid_cell_def one_minus_def np_broadcast_def)
  done


subsection \<open>Threshold policy and score fusion\<close>

text \<open>
  Claim C1. Whenever \<^verbatim>\<open>predict\<close> returns a result for a record, its decision follows
  from its \<open>fraud_score\<close> by the inclusive-low partition: at least 0.8 gives HIGH and BLOCK;
  at least 0.5 and below 0.8 gives MEDIUM and ALERT; at least 0.2 and below 0.5 gives LOW
  and MONITOR; below 0.2 gives MINIMAL and APPROVE; and \<open>is_fraud_predicted\<close> holds
  exactly when the score is above 0.5.
\<close>

theorem predict_decision_partition:
  assumes "predict lib self r = (self', Inr res)"
  shows "(fraud_score res \<ge> 0.8 \<longrightarrow> risk_level res = ''HIGH'' \<and> action res = ''BLOCK'') \<and>
         (0.5 \<le> fraud_score res \<and> fraud_score res < 0.8 \<longrightarrow>
            risk_level res = ''MEDIUM'' \<and> action res = ''ALERT'') \<and>
         (0.2 \<le> fraud_score res \<and> fraud_score res < 0.5 \<longrightarrow>
            risk_level res = ''LOW'' \<and> action res = ''MONITOR'') \<and>
         (fraud_score res < 0.2 \<longrightarrow> risk_level res = ''MINIMAL'' \<and> action res = ''APPROVE'') \<and>
         (is_fraud_predicted res \<longleftrightarrow> fraud_score res > 0.5)"
proof -
  from assms obtain x s where "res = make_result (fuse x (sigmoid s)) x (sigmoid s)"
    using predict_frame_shape unfolding predict_def by blast
  then show ?thesis
    by (simp add: make_result_def classify_cases)
qed

text \<open>
  The example detector answers 1/2 from the classifier and 0 from the forest, so the score
  is exactly the boundary 1/2: MEDIUM and ALERT, and the binary flag is off.
\<close>

theorem predict_decision_partition_witness:
  "predict ex_lib ex_detector ex_record =
     (ex_detector, Inr \<lparr>fraud_score = 1/2, xgb_score = 1/2, isolation_score = 1/2,
       risk_level = ''MEDIUM'', action = ''ALERT'', is_fraud_predicted = False\<rparr>) \<and>
   (0.5::real) \<le> 1/2 \<and> (1/2::real) < 0.8"
  using predict_decision_partition [OF ex_predict] by (simp add: ex_predict)

text \<open>
  Claim C2. Whenever \<^verbatim>\<open>predict\<close> returns a result for a record, the record went
  through preprocessing, its one row of selected features was scaled by the detector's
  scaler, \<open>xgb_score\<close> is the classifier's class-1 probability on that scaled row,
  \<open>isolation_score\<close> is the logistic transform \<open>1 / (1 + exp (- s))\<close> of the
  isolation forest's decision score \<open>s\<close> on the same row, and \<open>fraud_score\<close> is
  their unweighted average; both components lie in \<open>[0,1]\<close> and so does the score.
  That the classifier's probability lies in \<open>[0,1]\<close> is XGBoost's contract and is
  assumed of the fitted classifier; the logistic transform needs no assumption. The
  arithmetic is that of the reals.
\<close>

theorem predict_fusion_range:
  assumes "predict lib self r = (self', Inr res)"
      and "\<forall>m row p. xgb_model self = Some m \<longrightarrow> predict_proba1 m row = Inr p \<longrightarrow> 0 \<le> p \<and> p \<le> 1"
  shows "\<exists>X data sc m forest row p s.
           preprocess_data lib self (DataFrame_of_dict r) = (self', Inr (X, data)) \<and>
           scaler self = Some sc \<and> xgb_model self = Some m \<and> isolation_forest self = Some forest \<and>
           sc (map fst X) (map (\<lambda>(name, c). c ! 0) X) = Inr row \<and>
           predict_proba1 m row = Inr p \<and> forest row = Inr s \<and>
           xgb_score res = p \<and>
           isolation_score res = 1 / (1 + exp (- s)) \<and>
           fraud_score res = (p + 1 / (1 + exp (- s))) / 2 \<and>
           fraud_score res = (xgb_score res + isolation_score res) / 2 \<and>
           0 \<le> xgb_score res \<and> xgb_score res \<le> 1 \<and>
           0 \<le> isolation_score res \<and> isolation_score res \<le> 1 \<and>
           0 \<le> fraud_score res \<and> fraud_score res \<le> 1"
proof -
  from predict_Inr [OF assms(1)] obtain X data sc m forest row p s where
    a: "preprocess_data lib self (DataFrame_of_dict r) = (self', Inr (X, data))"
       "scaler self = Some sc" "xgb_model self = Some m" "isolation_forest self = Some forest"
       "sc (map fst X) (map (\<lambda>(name, c). c ! 0) X) = Inr row"
       "predict_proba1 m row = Inr p" "forest row = Inr s"
    and res: "res = make_result (fuse p (sigmoid s)) p (sigmoid s)"
    by (elim exE conjE)
  define sg where "sg = 1 / (1 + exp (- s))"
  from a(3,6) assms(2) have p: "0 \<le> p" "p \<le> 1" by auto
  from sigmoid_range [of s] have s: "0 \<le> sg" "sg \<le> 1"
    by (simp_all add: sigmoid_def sg_def)
  from res have f: "xgb_score res = p" "isolation_score res = sg" "fraud_score res = (p + sg) / 2"
    by (simp_all add: make_result_def fuse_def sigmoid_def sg_def)
  from p s f have b: "fraud_score res = (xgb_score res + isolation_score res) / 2"
    "0 \<le> xgb_score res" "xgb_score res \<le> 1"
    "0 \<le> isolation_score res" "isolation_score res \<le> 1"
    "0 \<le> fraud_score res" "fraud_score res \<le> 1"
    by simp_all
  note f = f [unfolded sg_def]
  from a f b show ?thesis by blast
qed

theorem predict_fusion_range_witness:
  "xgb_model ex_detector = Some ex_xgb \<and>
   predict_proba1 ex_xgb = (\<lambda>row. Inr (1/2)) \<and>
   predict ex_lib ex_detector ex_record =
     (ex_detector, Inr \<lparr>fraud_score = 1/2, xgb_score = 1/2, isolation_score = 1/2,
       risk_level = ''MEDIUM'', action = ''ALERT'', is_fraud_predicted = False\<rparr>) \<and>
   (1/2 :: real) = (1/2 + 1/2) / 2 \<and> (0::real) \<le> 1/2 \<and> (1/2 :: real) \<le> 1"
proof -
  have h: "\<forall>m row p. xgb_model ex_detector = Some m \<longrightarrow> predict_proba1 m row = Inr p
             \<longrightarrow> 0 \<le> p \<and> p \<le> 1"
    by (auto simp: ex_detector_def ex_xgb_def)
  have "xgb_model ex_detector = Some ex_xgb \<and> predict_proba1 ex_xgb = (\<lambda>row. Inr (1/2))"
    by (simp add: ex_detector_def ex_xgb_def)
  with predict_fusion_range [OF ex_predict h] ex_predict show ?thesis
    by simp
qed

subsection \<open>Unseen categorical values\<close>

text \<open>
  C3 as stated fails: the encoder for \<open>merchant_category\<close> was fitted on \<open>grocery\<close>
  only, and a record with \<open>casino\<close> makes \<^verbatim>\<open>predict\<close> raise.
\<close>

theorem unseen_category_counterexample:
  "predict ex_lib ex_detector ex_unseen = (ex_detector, Inl (UnseenLabels [''casino'']))"
  apply (simp add: predict_def predict_frame_def preprocess_data_def ex_derive_unseen)
  apply (simp add: DataFrame_of_dict_def CATEGORICAL_FEATURES_def ex_unseen_def ex_record_def ex_detector_def
    le_transform_def ex_lib_def astype_str_def)
  done

text \<open>
  Claim C3, as amended. The code has no out-of-vocabulary code: when a categorical
  attribute of the record has a fitted encoder and the record's value is not among the
  encoder's classes, \<^verbatim>\<open>predict\<close> raises and produces no prediction; when the derived
  columns can be computed, the exception is the encoder's unseen-labels error.
\<close>

theorem predict_unseen_category_raises:
  assumes "feature \<in> set CATEGORICAL_FEATURES"
    and "label_encoders self feature = Some classes"
    and "r feature = Some v"
    and "astype_str lib v \<notin> set classes"
  shows "isl (snd (predict lib self r)) \<and>
         (\<not> isl (derive_columns lib (DataFrame_of_dict r)) \<longrightarrow>
            (\<exists>ls. snd (predict lib self r) = Inl (UnseenLabels ls)))"
proof (cases "derive_columns lib (DataFrame_of_dict r)")
  case (Inl e)
  then show ?thesis
    by (simp add: predict_def predict_frame_def preprocess_data_Inl)
next
  case (Inr data)
  have "feature \<notin> {''timestamp'', ''is_weekend'', ''is_night'', ''amount_log'', ''velocity_risk'',
               ''amount_deviation'', ''total_risk_score''}"
    using assms(1) by (auto simp: CATEGORICAL_FEATURES_def)
  from derive_columns_cols [OF Inr this] assms(3)
  have c: "cols data feature = Some [v]" by (simp add: DataFrame_of_dict_def)
  have v: "v \<in> set [v]" by simp
  have "\<exists>ls. snd (encode_features lib CATEGORICAL_FEATURES (label_encoders self) data)
          = Inl (UnseenLabels ls)"
    using assms(1,2) c v assms(4) CATEGORICAL_FEATURES_names by (rule encode_features_unseen)
  then obtain ls where
    "snd (encode_features lib CATEGORICAL_FEATURES (label_encoders self) data) = Inl (UnseenLabels ls)"
    by blast
  with preprocess_data_encode [OF Inr, of self]
  have "snd (preprocess_data lib self (DataFrame_of_dict r)) = Inl (UnseenLabels ls)" by simp
  then have "snd (predict lib self r) = Inl (UnseenLabels ls)"
    unfolding predict_def by (rule predict_frame_Inl)
  then show ?thesis by simp
qed

theorem predict_unseen_category_raises_witness:
  "''merchant_category'' \<in> set CATEGORICAL_FEATURES \<and>
   label_encoders ex_detector ''merchant_category'' = Some [''grocery''] \<and>
   ex_unseen ''merchant_category'' = Some (Str ''casino'') \<and>
   astype_str ex_lib (Str ''casino'') \<notin> set [''grocery''] \<and>
   \<not> isl (derive_columns ex_lib (DataFrame_of_dict ex_unseen)) \<and>
   isl (snd (predict ex_lib ex_detector ex_unseen))"
  using predict_unseen_category_raises [of "''merchant_category''" ex_detector "[''grocery'']"
      ex_unseen "Str ''casino''" ex_lib]
  by (simp add: CATEGORICAL_FEATURES_def ex_detector_def ex_unseen_def astype_str_def ex_derive_unseen [unfolded ex_unseen_def])

subsection \<open>Evaluation against serving\<close>

text \<open>
  Claim C4, at one input. For classifier probability 1/2 and raw isolation score 0, the
  evaluation inside \<^verbatim>\<open>train\<close> (min-max over the test batch, here with scores 0 and 1/10,
  then \<open>1 - p\<close>) reports the hybrid score 3/4, while \<^verbatim>\<open>predict\<close> (logistic transform, no
  inversion) gives 1/2.
\<close>

theorem train_serve_transform_differs:
  "hybrid_proba [1/2, 1/2] [0, 1/10] = Inr [Num (3/4), Num (1/4)] \<and>
   fuse (1/2) (sigmoid 0) = 1/2"
  by (simp add: hybrid_proba_def minmax_normalize_def bindE_def hybrid_cell_def one_minus_def
      np_broadcast_def fuse_def sigmoid_def)

subsection \<open>Oversampling and the held-out split\<close>

text \<open>
  Claim C5. In every successful \<^verbatim>\<open>train\<close>, the split comes first; SMOTE is applied to
  the scaled training split and its labels only; the classifier kept in the detector is
  the one fitted on SMOTE's output; and \<^verbatim>\<open>_evaluate_models\<close> receives the scaled test
  split with the labels \<open>y_test\<close> exactly as the split returned them, from which the
  reported metrics are computed.
\<close>

theorem train_oversamples_training_split_only:
  assumes "train lib self df = (self', Inr pm)"
  shows "\<exists>self1 self_fitted X data y X_train X_test y_train y_test sc X_train_scaled X_test_scaled
            isolation_test_pred X_train_balanced y_train_balanced m.
           preprocess_data lib self df = (self1, Inr (X, data)) \<and>
           getcol df ''is_fraud'' = Inr y \<and>
           train_test_split lib (rows_of (nrows df) X) y = Inr (X_train, X_test, y_train, y_test) \<and>
           mapE (sc (map fst X)) X_train = Inr X_train_scaled \<and>
           mapE (sc (map fst X)) X_test = Inr X_test_scaled \<and>
           smote_fit_resample lib X_train_scaled y_train = Inr (X_train_balanced, y_train_balanced) \<and>
           xgb_fit lib X_train_balanced y_train_balanced (X_test_scaled, y_test) = Inr m \<and>
           xgb_model self' = Some m \<and> scaler self' = Some sc \<and>
           evaluate_models lib self_fitted X_test_scaled y_test isolation_test_pred = (self', Inr ()) \<and>
           pm = performance_metrics self'"
proof -
  obtain self1 r1 where pp: "preprocess_data lib self df = (self1, r1)"
    by (cases "preprocess_data lib self df")
  show ?thesis
  proof (cases r1)
    case (Inl e)
    with pp assms show ?thesis by (simp add: train_def)
  next
    case (Inr p)
    obtain X data where p: "p = (X, data)" by (cases p)
    show ?thesis
    proof (cases "getcol df ''is_fraud''")
      case (Inl e)
      with pp Inr p assms show ?thesis by (simp add: train_def)
    next
      case y: (Inr y)
      show ?thesis
      proof (cases "train_test_split lib (rows_of (nrows df) X) y")
        case (Inl e)
        with pp Inr p y assms show ?thesis by (simp add: train_def)
      next
        case sp: (Inr q)
        obtain X_train X_test y_train y_test where q: "q = (X_train, X_test, y_train, y_test)"
          by (cases q)
        from pp Inr p y sp q assms
        have fl: "fit_learners lib self1 (map fst X) X_train X_test y_train y_test = (self', Inr pm)"
          by (simp add: train_def)
        from fit_learners_Inr [OF fl] obtain sc X_train_scaled X_test_scaled forest
          isolation_test_pred X_train_balanced y_train_balanced m
          where a: "mapE (sc (map fst X)) X_train = Inr X_train_scaled"
            "mapE (sc (map fst X)) X_test = Inr X_test_scaled"
            "smote_fit_resample lib X_train_scaled y_train = Inr (X_train_balanced, y_train_balanced)"
            "xgb_fit lib X_train_balanced y_train_balanced (X_test_scaled, y_test) = Inr m"
            and ev: "evaluate_models lib
             (self1\<lparr>scaler := Some sc, isolation_forest := Some forest, xgb_model := Some m,
                   feature_importance := zip (map fst X) (feature_importances m)\<rparr>)
             X_test_scaled y_test isolation_test_pred = (self', Inr ())"
            and pm: "pm = performance_metrics self'"
          by (elim exE conjE)
        let ?sf = "self1\<lparr>scaler := Some sc, isolation_forest := Some forest, xgb_model := Some m,
                   feature_importance := zip (map fst X) (feature_importances m)\<rparr>"
        obtain pm' where "fst (evaluate_models lib ?sf X_test_scaled y_test isolation_test_pred)
            = ?sf\<lparr>performance_metrics := pm'\<rparr>"
          using evaluate_models_self [of lib ?sf X_test_scaled y_test isolation_test_pred]
          by (elim exE)
        with ev have "xgb_model self' = Some m" "scaler self' = Some sc" by simp_all
        with pp Inr p y sp q a ev pm show ?thesis by blast
      qed
    qed
  qed
qed

theorem train_oversamples_training_split_only_witness:
  "\<not> isl (snd (train ex_lib init ex_frame)) \<and>
   xgb_model (fst (train ex_lib init ex_frame)) = Some ex_xgb"
proof -
  have t: "train ex_lib init ex_frame =
      (fst (train ex_lib init ex_frame), Inr (projr (snd (train ex_lib init ex_frame))))"
    using ex_train by (simp add: prod_eq_iff)
  from train_oversamples_training_split_only [OF t]
  obtain X_train_balanced y_train_balanced X_test_scaled y_test m where
    "xgb_fit ex_lib X_train_balanced y_train_balanced (X_test_scaled, y_test) = Inr m"
    "xgb_model (fst (train ex_lib init ex_frame)) = Some m"
    by blast
  then have "xgb_model (fst (train ex_lib init ex_frame)) = Some ex_xgb"
    by (simp add: ex_lib_def)
  with ex_train show ?thesis by simp
qed

subsection \<open>Prediction before fitting\<close>




subsection \<open>Persistence round trip\<close>

text \<open>
  Claim C7. When \<^verbatim>\<open>save_model\<close> has written its file, \<^verbatim>\<open>load_model\<close> from that path,
  into any detector, returns \<open>True\<close> and yields exactly the saved detector: classifier,
  anomaly scorer, scaler, label encoders, performance metrics and feature importances are
  those that were saved.
\<close>

theorem load_save_roundtrip:
  assumes "save_model lib fs self filepath = (fs', Inr ())"
  shows "load_model fs' other filepath = (self, True) \<and>
         xgb_model (fst (load_model fs' other filepath)) = xgb_model self \<and>
         isolation_forest (fst (load_model fs' other filepath)) = isolation_forest self \<and>
         scaler (fst (load_model fs' other filepath)) = scaler self \<and>
         label_encoders (fst (load_model fs' other filepath)) = label_encoders self \<and>
         performance_metrics (fst (load_model fs' other filepath)) = performance_metrics self \<and>
         feature_importance (fst (load_model fs' other filepath)) = feature_importance self"
proof -
  from assms have "load_model fs' other filepath = (self, True)"
    by (auto simp: save_model_def load_model_def Let_def split: if_splits intro!: detector_eqI)
  then show ?thesis by simp
qed

theorem load_save_roundtrip_witness:
  "snd (save_model ex_lib Map.empty ex_detector ex_path) = Inr () \<and>
   load_model (fst (save_model ex_lib Map.empty ex_detector ex_path)) init ex_path = (ex_detector, True)"
proof -
  have s: "save_model ex_lib Map.empty ex_detector ex_path =
        (fst (save_model ex_lib Map.empty ex_detector ex_path), Inr ())"
    by (simp add: save_model_def ex_lib_def)
  from load_save_roundtrip [OF s, of init] s show ?thesis by (simp add: save_model_def ex_lib_def)
qed

subsection \<open>Batch prediction\<close>

lemma batch_loop_Cons:
  assumes "batch_loop lib clk i self (t # ts) = (self'', Inr results)"
  shows "\<exists>self' result rest.
           predict lib self ((dict t)(''timestamp'' \<mapsto> now clk i)) = (self', Inr result) \<and>
           batch_loop lib clk (Suc i) self' ts = (self'', Inr rest) \<and>
           results = \<lparr>item_transaction_id = transaction_id t,
                      item_fraud_score = fraud_score result,
                      item_risk_level = risk_level result,
                      item_action = action result,
                      item_is_fraud_predicted = is_fraud_predicted result\<rparr> # rest"
  using assms by (auto simp: Let_def split: prod.splits sum.splits)

lemma batch_predict_nonempty:
  assumes "transactions \<noteq> []" and "fraud_detector st = Some self"
    and "batch_loop lib clk 0 self transactions = (self', Inr results)"
  shows "\<exists>resp. snd (batch_predict lib clk st transactions) = Inr resp \<and> predictions resp = results"
  using assms by (simp add: batch_predict_def float_div_def Let_def)

text \<open>
  Claim C8, at the empty list. With a detector in place, \<^verbatim>\<open>batch_predict\<close> on no
  transactions does not return the empty list of predictions: the average time per
  transaction divides by the length of the list, and the handler answers with a 500.
\<close>

theorem batch_predict_empty_raises:
  "snd (batch_predict lib clk (st\<lparr>fraud_detector := Some self\<rparr>) []) =
     Inl (HTTPException 500 (Some ZeroDivisionError))"
  by (simp add: batch_predict_def float_div_def Let_def)

subsection \<open>What a prediction changes\<close>

text \<open>
  C9 as stated fails: on a fresh detector the encoder loop of \<^verbatim>\<open>preprocess_data\<close> fits
  an encoder on the record being scored and keeps it, although the call then raises.
\<close>

theorem predict_mutates_encoders_counterexample:
  "label_encoders init ''merchant_category'' = None \<and>
   label_encoders (fst (predict ex_lib init ex_record)) ''merchant_category'' = Some [''grocery'']"
  by (simp add: predict_def predict_frame_self ex_preprocess_init) (simp add: init_def)

text \<open>
  Claim C9, as amended. \<^verbatim>\<open>predict\<close>, whether it returns or raises, never changes the
  classifier, the anomaly scorer, the scaler, the metrics or the feature importances; and
  when every categorical attribute present in the record already has an encoder, it leaves
  the whole detector as it was.
\<close>

theorem predict_effect_on_fitted_state:
  "xgb_model (fst (predict lib self r)) = xgb_model self \<and>
   isolation_forest (fst (predict lib self r)) = isolation_forest self \<and>
   scaler (fst (predict lib self r)) = scaler self \<and>
   performance_metrics (fst (predict lib self r)) = performance_metrics self \<and>
   feature_importance (fst (predict lib self r)) = feature_importance self \<and>
   ((\<forall>feature\<in>set CATEGORICAL_FEATURES. r feature \<noteq> None \<longrightarrow> label_encoders self feature \<noteq> None)
      \<longrightarrow> fst (predict lib self r) = self)"
proof -
  let ?df = "DataFrame_of_dict r"
  have fst_eq: "fst (predict lib self r) = fst (preprocess_data lib self ?df)"
    by (simp add: predict_def predict_frame_self)
  obtain encs where encs: "fst (preprocess_data lib self ?df) = self\<lparr>label_encoders := encs\<rparr>"
    using preprocess_data_self [of lib self ?df] by (elim exE)
  have frozen: "fst (preprocess_data lib self ?df) = self"
    if h: "\<forall>feature\<in>set CATEGORICAL_FEATURES. r feature \<noteq> None \<longrightarrow> label_encoders self feature \<noteq> None"
  proof (cases "derive_columns lib ?df")
    case (Inl e)
    then show ?thesis by (simp add: preprocess_data_Inl)
  next
    case (Inr data)
    have "\<forall>f\<in>set CATEGORICAL_FEATURES. cols data f \<noteq> None \<longrightarrow> label_encoders self f \<noteq> None"
    proof (intro ballI impI)
      fix f assume f: "f \<in> set CATEGORICAL_FEATURES" and c: "cols data f \<noteq> None"
      have "f \<notin> {''timestamp'', ''is_weekend'', ''is_night'', ''amount_log'', ''velocity_risk'',
               ''amount_deviation'', ''total_risk_score''}"
        using f by (auto simp: CATEGORICAL_FEATURES_def)
      from derive_columns_cols [OF Inr this] c have "r f \<noteq> None"
        by (simp add: DataFrame_of_dict_def)
      with h f show "label_encoders self f \<noteq> None" by blast
    qed
    then have "fst (encode_features lib CATEGORICAL_FEATURES (label_encoders self) data)
                 = label_encoders self"
      using CATEGORICAL_FEATURES_names by (rule encode_features_frozen)
    with preprocess_data_encode [OF Inr, of self] show ?thesis by simp
  qed
  from fst_eq encs frozen show ?thesis by simp
qed

theorem predict_effect_on_fitted_state_witness:
  "ex_record ''merchant_category'' \<noteq> None \<and>
   label_encoders ex_detector ''merchant_category'' \<noteq> None \<and>
   ex_record ''device_type'' = None \<and> ex_record ''payment_method'' = None \<and>
   fst (predict ex_lib ex_detector ex_record) = ex_detector"
  using predict_effect_on_fitted_state [of ex_lib ex_detector ex_record]
  by (simp add: CATEGORICAL_FEATURES_def ex_record_def ex_detector_def)

subsection \<open>The timestamp key\<close>

text \<open>
  Claim C10. A record without the key \<open>timestamp\<close> makes \<^verbatim>\<open>predict\<close> raise
  \<^verbatim>\<open>KeyError('timestamp')\<close> in the first statement of preprocessing, before any scaling
  or scoring and with the detector untouched, although \<open>timestamp\<close> is never among the
  selected feature columns. The \<^verbatim>\<open>dict()\<close> of a validated request has no such key,
  which is why the API handlers add one.
\<close>

theorem predict_requires_timestamp:
  assumes "r ''timestamp'' = None"
  shows "predict lib self r = (self, Inl (KeyError ''timestamp'')) \<and>
         ''timestamp'' \<notin> fst ` set (select_features data) \<and>
         dict t ''timestamp'' = None"
proof -
  have "derive_columns lib (DataFrame_of_dict r) = Inl (KeyError ''timestamp'')"
    using assms
    by (simp add: derive_columns_def add_timestamp_def bindE_def getcol_def DataFrame_of_dict_def)
  then have "predict lib self r = (self, Inl (KeyError ''timestamp''))"
    by (simp add: predict_def predict_frame_def preprocess_data_def)
  moreover have "fst ` set (select_features data) \<subseteq>
      set feature_columns \<union> set (map (\<lambda>feature. feature @ ''_encoded'') CATEGORICAL_FEATURES)"
    by (auto simp: select_features_def Let_def split: option.splits)
  moreover have "''timestamp'' \<notin>
      set feature_columns \<union> set (map (\<lambda>feature. feature @ ''_encoded'') CATEGORICAL_FEATURES)"
    by (simp add: feature_columns_def CATEGORICAL_FEATURES_def)
  moreover have "dict t ''timestamp'' = None"
    by (simp add: dict_def)
  ultimately show ?thesis by blast
qed

theorem predict_requires_timestamp_witness:
  "(ex_record(''timestamp'' := None)) ''timestamp'' = None \<and>
   predict ex_lib ex_detector (ex_record(''timestamp'' := None)) =
     (ex_detector, Inl (KeyError ''timestamp''))"
  using predict_requires_timestamp [of "ex_record(''timestamp'' := None)" ex_lib ex_detector]
  by simp

end
